theory Spec2Isabelle
  imports Complex_Main "HOL-Library.Sublist"
begin

text \<open>
  A shallow embedding of the SQL Server connector. Its sources hold two variants of the
  executor: \<^verbatim>\<open>src/datasource/src/index.cjs\<close>, which keeps one shared pool and wraps the
  whole query execution in \<^verbatim>\<open>retry\<close>, and \<^verbatim>\<open>src/unnamed/part_000\<close>, called the second
  variant below, which connects for each query and wraps each step in \<^verbatim>\<open>withRetry\<close>
  (an older \<^verbatim>\<open>runQuery\<close> at the end of index.cjs has no retry wrapper and is not modelled).
  \<^verbatim>\<open>nativeTypeToEvidenceType\<close>, \<^verbatim>\<open>mapResultsToEvidenceColumnTypes\<close> and \<^verbatim>\<open>buildConfig\<close> are
  the same in both. JavaScript numbers are integers or reals here, strings are lists of
  characters, and what a promise does is what the function returns: the value it
  resolves with or the value it rejects with.
\<close>

section \<open>Type mapper\<close>

text \<open>
  The native type tags are the constants of \<^verbatim>\<open>mssql.TYPES\<close> that the switch of
  \<^verbatim>\<open>nativeTypeToEvidenceType\<close> names, one constructor each, and \<open>TYPES_unlisted\<close> for
  every other value a column's \<^verbatim>\<open>type\<close> field can hold (the switch compares with
  \<^verbatim>\<open>===\<close>, so any such value reaches \<^verbatim>\<open>default\<close>).
\<close>

datatype native_type =
    TYPES_Int | TYPES_TinyInt | TYPES_BigInt | TYPES_SmallInt | TYPES_Float
  | TYPES_Real | TYPES_Decimal | TYPES_Numeric | TYPES_SmallMoney | TYPES_Money
  | TYPES_DateTime | TYPES_SmallDateTime | TYPES_DateTimeOffset | TYPES_Date
  | TYPES_DateTime2
  | TYPES_VarChar | TYPES_NVarChar | TYPES_Char | TYPES_NChar | TYPES_Xml
  | TYPES_Text | TYPES_NText
  | TYPES_Bit
  | TYPES_Time | TYPES_UniqueIdentifier | TYPES_Binary | TYPES_VarBinary
  | TYPES_Image | TYPES_TVP | TYPES_UDT | TYPES_Geography | TYPES_Geometry
  | TYPES_Variant
  | TYPES_unlisted nat

datatype EvidenceType = NUMBER | DATE | STRING | BOOLEAN

datatype TypeFidelity = PRECISE | INFERRED

text \<open>\<^verbatim>\<open>undefined\<close> is \<open>None\<close>; the four enum values are non-empty strings, hence truthy.\<close>

fun nativeTypeToEvidenceType :: "native_type \<Rightarrow> EvidenceType option \<Rightarrow> EvidenceType option" where
  "nativeTypeToEvidenceType TYPES_Int defaultType = Some NUMBER"
| "nativeTypeToEvidenceType TYPES_TinyInt defaultType = Some NUMBER"
| "nativeTypeToEvidenceType TYPES_BigInt defaultType = Some NUMBER"
| "nativeTypeToEvidenceType TYPES_SmallInt defaultType = Some NUMBER"
| "nativeTypeToEvidenceType TYPES_Float defaultType = Some NUMBER"
| "nativeTypeToEvidenceType TYPES_Real defaultType = Some NUMBER"
| "nativeTypeToEvidenceType TYPES_Decimal defaultType = Some NUMBER"
| "nativeTypeToEvidenceType TYPES_Numeric defaultType = Some NUMBER"
| "nativeTypeToEvidenceType TYPES_SmallMoney defaultType = Some NUMBER"
| "nativeTypeToEvidenceType TYPES_Money defaultType = Some NUMBER"
| "nativeTypeToEvidenceType TYPES_DateTime defaultType = Some DATE"
| "nativeTypeToEvidenceType TYPES_SmallDateTime defaultType = Some DATE"
| "nativeTypeToEvidenceType TYPES_DateTimeOffset defaultType = Some DATE"
| "nativeTypeToEvidenceType TYPES_Date defaultType = Some DATE"
| "nativeTypeToEvidenceType TYPES_DateTime2 defaultType = Some DATE"
| "nativeTypeToEvidenceType TYPES_VarChar defaultType = Some STRING"
| "nativeTypeToEvidenceType TYPES_NVarChar defaultType = Some STRING"
| "nativeTypeToEvidenceType TYPES_Char defaultType = Some STRING"
| "nativeTypeToEvidenceType TYPES_NChar defaultType = Some STRING"
| "nativeTypeToEvidenceType TYPES_Xml defaultType = Some STRING"
| "nativeTypeToEvidenceType TYPES_Text defaultType = Some STRING"
| "nativeTypeToEvidenceType TYPES_NText defaultType = Some STRING"
| "nativeTypeToEvidenceType TYPES_Bit defaultType = Some BOOLEAN"
| "nativeTypeToEvidenceType TYPES_Time defaultType = defaultType"
| "nativeTypeToEvidenceType TYPES_UniqueIdentifier defaultType = defaultType"
| "nativeTypeToEvidenceType TYPES_Binary defaultType = defaultType"
| "nativeTypeToEvidenceType TYPES_VarBinary defaultType = defaultType"
| "nativeTypeToEvidenceType TYPES_Image defaultType = defaultType"
| "nativeTypeToEvidenceType TYPES_TVP defaultType = defaultType"
| "nativeTypeToEvidenceType TYPES_UDT defaultType = defaultType"
| "nativeTypeToEvidenceType TYPES_Geography defaultType = defaultType"
| "nativeTypeToEvidenceType TYPES_Geometry defaultType = defaultType"
| "nativeTypeToEvidenceType TYPES_Variant defaultType = defaultType"
| "nativeTypeToEvidenceType (TYPES_unlisted v) defaultType = defaultType"

text \<open>
  One entry of the driver's column metadata (\<^verbatim>\<open>field.name\<close>, \<^verbatim>\<open>field.type\<close>) and one
  entry of the produced \<^verbatim>\<open>columnTypes\<close>.
\<close>

record column_metadata =
  field_name :: string
  field_type :: native_type

record column_type =
  name :: string
  evidenceType :: EvidenceType
  typeFidelity :: TypeFidelity

text \<open>
  The argument is the list \<^verbatim>\<open>Object.values(fields)\<close> iterates; the call passes no
  \<^verbatim>\<open>defaultType\<close>, so the parameter is \<^verbatim>\<open>undefined\<close>.
\<close>

definition mapField :: "column_metadata \<Rightarrow> column_type" where
  "mapField f =
     (case nativeTypeToEvidenceType (field_type f) None of
        None \<Rightarrow> \<lparr>name = field_name f, evidenceType = STRING, typeFidelity = INFERRED\<rparr>
      | Some t \<Rightarrow> \<lparr>name = field_name f, evidenceType = t, typeFidelity = PRECISE\<rparr>)"

definition mapResultsToEvidenceColumnTypes :: "column_metadata list \<Rightarrow> column_type list" where
  "mapResultsToEvidenceColumnTypes columns = map mapField columns"

text \<open>The families of the type table, as sets of tags.\<close>

definition number_tags :: "native_type set" where
  "number_tags = {TYPES_Int, TYPES_TinyInt, TYPES_BigInt, TYPES_SmallInt, TYPES_Float,
     TYPES_Real, TYPES_Decimal, TYPES_Numeric, TYPES_SmallMoney, TYPES_Money}"

definition date_tags :: "native_type set" where
  "date_tags = {TYPES_DateTime, TYPES_SmallDateTime, TYPES_DateTimeOffset, TYPES_Date,
     TYPES_DateTime2}"

definition string_tags :: "native_type set" where
  "string_tags = {TYPES_VarChar, TYPES_NVarChar, TYPES_Char, TYPES_NChar, TYPES_Xml,
     TYPES_Text, TYPES_NText}"

definition boolean_tags :: "native_type set" where
  "boolean_tags = {TYPES_Bit}"

definition type_table :: "native_type set" where
  "type_table = number_tags \<union> date_tags \<union> string_tags \<union> boolean_tags"


section \<open>Thrown values and work functions\<close>

text \<open>
  What a \<^verbatim>\<open>catch\<close> can receive, as far as the wrappers look at it: an instance of
  \<^verbatim>\<open>Error\<close> with its \<^verbatim>\<open>name\<close> and \<^verbatim>\<open>message\<close> (both strings), a primitive string,
  \<^verbatim>\<open>null\<close> or \<^verbatim>\<open>undefined\<close>, or any other truthy value, of which only the \<^verbatim>\<open>message\<close>
  property (when it holds a string) and the result of its \<^verbatim>\<open>toString()\<close> (when it has
  such a method) are read.
\<close>

datatype js_thrown =
    JsError string string
  | JsString string
  | JsNullish
  | JsObject "string option" "string option"

text \<open>
  An asynchronous work function takes no argument and has effects, so each call may end
  differently: it is a function of the state of the world \<open>'s\<close>, returning the value it
  resolves with (\<open>Inr\<close>) or the value it rejects with (\<open>Inl\<close>), and the next state.
\<close>

type_synonym ('a, 's) work = "'s \<Rightarrow> (js_thrown + 'a) \<times> 's"

text \<open>
  How a call of \<^verbatim>\<open>retry\<close> ends (\<open>ReturnedUndefined\<close>: the body fell off its end), and
  the record of a call of a wrapper: its outcome, the number of times the work function
  was invoked, the waits between invocations in order (milliseconds), and the state left
  behind.
\<close>

datatype 'a completion = Returned 'a | ReturnedUndefined | Thrown js_thrown

record ('o, 's) run =
  outcome :: 'o
  calls :: nat
  waits :: "real list"
  final :: 's

text \<open>\<^verbatim>\<open>Error.prototype.toString\<close>.\<close>

definition Error_toString :: "string \<Rightarrow> string \<Rightarrow> string" where
  "Error_toString nm msg =
     (if nm = [] then msg else if msg = [] then nm else nm @ '': '' @ msg)"

text \<open>\<^verbatim>\<open>String.prototype.includes\<close>: the argument occurs as a contiguous part.\<close>

definition js_includes :: "string \<Rightarrow> string \<Rightarrow> bool" where
  "js_includes s part = sublist part s"

text \<open>\<^verbatim>\<open>toLowerCase\<close>, on the letters A to Z; every other character is kept.\<close>

definition toLowerCase_char :: "char \<Rightarrow> char" where
  "toLowerCase_char c =
     (if 65 \<le> (of_char c :: nat) \<and> (of_char c :: nat) \<le> 90
      then char_of ((of_char c :: nat) + 32) else c)"

definition toLowerCase :: "string \<Rightarrow> string" where
  "toLowerCase s = map toLowerCase_char s"

section \<open>The retry wrapper of index.cjs\<close>

text \<open>
  The options of \<^verbatim>\<open>retry\<close> after destructuring. \<^verbatim>\<open>retries\<close> is a JavaScript number:
  it is modelled as an integer, which may be negative.
\<close>

record retry_options =
  retries :: int
  delay :: real
  backoffFactor :: real
  retryableErrors :: "string list"

definition retry_defaults :: retry_options where
  "retry_defaults = \<lparr>retries = 3, delay = 1000, backoffFactor = 2, retryableErrors = []\<rparr>"

text \<open>
  The normalisation at the head of the catch block: the name and message of the
  \<^verbatim>\<open>Error\<close> instance that \<^verbatim>\<open>err\<close> holds after it.
\<close>

fun normalise :: "js_thrown \<Rightarrow> string \<times> string" where
  "normalise (JsError nm msg) = (nm, msg)"
| "normalise (JsString s) = (''Error'', s)"
| "normalise (JsObject m (Some t)) = (''Error'', t)"
| "normalise (JsObject m None) = (''Error'', ''Unknown error'')"
| "normalise JsNullish = (''Error'', ''Unknown error'')"

text \<open>\<^verbatim>\<open>err.message || err.toString()\<close> on the normalised error.\<close>

definition errorMessage :: "string \<times> string \<Rightarrow> string" where
  "errorMessage e = (if snd e \<noteq> [] then snd e else Error_toString (fst e) (snd e))"

definition isRetryable :: "string list \<Rightarrow> js_thrown \<Rightarrow> bool" where
  "isRetryable retryable err =
     list_ex (\<lambda>retryError. js_includes (errorMessage (normalise err)) retryError) retryable"

function retry_loop ::
  "('a, 's) work \<Rightarrow> retry_options \<Rightarrow> int \<Rightarrow> 's \<Rightarrow> ('a completion, 's) run" where
  "retry_loop fn opts attempt s =
     (if attempt \<le> retries opts + 1 then
        (case fn s of
           (Inr v, s') \<Rightarrow> \<lparr>outcome = Returned v, calls = 1, waits = [], final = s'\<rparr>
         | (Inl err, s') \<Rightarrow>
             if \<not> isRetryable (retryableErrors opts) err \<or> attempt = retries opts + 1
             then \<lparr>outcome = Thrown (JsError (fst (normalise err)) (snd (normalise err))),
                    calls = 1, waits = [], final = s'\<rparr>
             else
               (let waitTime = delay opts * backoffFactor opts ^ nat (attempt - 1);
                    r = retry_loop fn opts (attempt + 1) s'
                in r\<lparr>calls := Suc (calls r), waits := waitTime # waits r\<rparr>))
      else \<lparr>outcome = ReturnedUndefined, calls = 0, waits = [], final = s\<rparr>)"
  by pat_completeness auto
termination
  by (relation "measure (\<lambda>(fn, opts, attempt, s). nat (retries opts + 1 - attempt))") auto

definition retry ::
  "('a, 's) work \<Rightarrow> retry_options \<Rightarrow> 's \<Rightarrow> ('a completion, 's) run" where
  "retry fn opts s = retry_loop fn opts 1 s"

section \<open>The retry wrapper of the second variant (part_000)\<close>

record withRetry_options =
  maxRetries :: int
  baseDelay :: real
  maxDelay :: real

definition withRetry_defaults :: withRetry_options where
  "withRetry_defaults = \<lparr>maxRetries = 3, baseDelay = 1000, maxDelay = 10000\<rparr>"

definition withRetry_retryableErrors :: "string list" where
  "withRetry_retryableErrors =
     [''ETIMEOUT'', ''ECONNRESET'', ''ECONNREFUSED'', ''ESOCKET'',
      ''PROTOCOL_SEQUENCE_TIMEOUT'', ''EALREADYCONNECTED'', ''EALREADYCONNECTING'',
      ''Failed to connect'', ''Connection lost'', ''Timeout'', ''Socket hang up'',
      ''Network error'', ''Request failed'', ''Deadlock'',
      ''The connection has been lost'', ''The server has reset the connection'']"

definition matches_retryable :: "string \<Rightarrow> bool" where
  "matches_retryable str =
     list_ex (\<lambda>errMsg. js_includes (toLowerCase str) (toLowerCase errMsg))
       withRetry_retryableErrors"

fun shouldRetry :: "js_thrown \<Rightarrow> bool" where
  "shouldRetry (JsError nm msg) = (if msg \<noteq> [] then matches_retryable msg else False)"
| "shouldRetry (JsObject (Some msg) t) = (if msg \<noteq> [] then matches_retryable msg else False)"
| "shouldRetry (JsObject None t) = False"
| "shouldRetry (JsString s) = matches_retryable s"
| "shouldRetry JsNullish = False"

text \<open>
  The outcome of \<^verbatim>\<open>withRetry\<close> is the value it resolves with (\<open>Inr\<close>) or the value it
  throws (\<open>Inl\<close>). \<open>rnd i\<close> is the value of the wrapper's \<open>i\<close>-th call of
  \<^verbatim>\<open>Math.random()\<close>, counted from 0; one is made at each retry. \<open>attempts\<close> is the
  counter before the invocation. \<^verbatim>\<open>maxRetries\<close> is modelled as an integer, the delays as
  reals.
\<close>

function withRetry_loop ::
  "('a, 's) work \<Rightarrow> withRetry_options \<Rightarrow> (nat \<Rightarrow> real) \<Rightarrow> nat \<Rightarrow> 's \<Rightarrow>
     (js_thrown + 'a, 's) run" where
  "withRetry_loop fn opts rnd attempts s =
     (case fn s of
        (Inr v, s') \<Rightarrow> \<lparr>outcome = Inr v, calls = 1, waits = [], final = s'\<rparr>
      | (Inl err, s') \<Rightarrow>
          if int (attempts + 1) \<ge> maxRetries opts \<or> \<not> shouldRetry err
          then \<lparr>outcome = Inl err, calls = 1, waits = [], final = s'\<rparr>
          else
            (let delay = min (maxDelay opts)
                   (baseDelay opts * 2 ^ (attempts + 1 - 1) * (1 + rnd attempts * 0.2));
                 r = withRetry_loop fn opts rnd (attempts + 1) s'
             in r\<lparr>calls := Suc (calls r), waits := delay # waits r\<rparr>))"
  by pat_completeness auto
termination
  by (relation "measure (\<lambda>(fn, opts, rnd, attempts, s). nat (maxRetries opts - int attempts))")
    auto

definition withRetry ::
  "('a, 's) work \<Rightarrow> withRetry_options \<Rightarrow> (nat \<Rightarrow> real) \<Rightarrow> 's \<Rightarrow> (js_thrown + 'a, 's) run" where
  "withRetry fn opts rnd s = withRetry_loop fn opts rnd 0 s"

section \<open>Successive invocations of a work function\<close>

text \<open>The state in which the invocation number \<open>n\<close> (counted from 0) starts.\<close>

fun state_after :: "('a, 's) work \<Rightarrow> 's \<Rightarrow> nat \<Rightarrow> 's" where
  "state_after fn s 0 = s"
| "state_after fn s (Suc n) = state_after fn (snd (fn s)) n"

text \<open>
  The first \<open>n\<close> invocations from state \<open>s\<close> all fail, each with an error that the
  classifier \<open>transient\<close> accepts.
\<close>

fun transient_failures :: "(js_thrown \<Rightarrow> bool) \<Rightarrow> ('a, 's) work \<Rightarrow> 's \<Rightarrow> nat \<Rightarrow> bool" where
  "transient_failures transient fn s 0 = True"
| "transient_failures transient fn s (Suc n) =
     (case fst (fn s) of
        Inl err \<Rightarrow> transient err \<and> transient_failures transient fn (snd (fn s)) n
      | Inr v \<Rightarrow> False)"

text \<open>
  A work function that plays a fixed list of results, one per invocation, and counts
  its invocations in the state; past the end of the list it resolves with \<open>d\<close>.
\<close>

definition scripted :: "(js_thrown + 'a) list \<Rightarrow> 'a \<Rightarrow> ('a, nat) work" where
  "scripted xs d n = (if n < length xs then xs ! n else Inr d, Suc n)"

text \<open>The options with which \<^verbatim>\<open>runQuery\<close> of index.cjs calls \<^verbatim>\<open>retry\<close>.\<close>

definition runQuery_retryableErrors :: "string list" where
  "runQuery_retryableErrors =
     [''ETIMEOUT'', ''ECONNREFUSED'', ''RequestError: Timeout'',
      ''A network-related or instance-specific error occurred'',
      ''Connection lost'', ''Failed to connect'']"

definition runQuery_retry_options :: retry_options where
  "runQuery_retry_options =
     \<lparr>retries = 3, delay = 1000, backoffFactor = 2,
      retryableErrors = runQuery_retryableErrors\<rparr>"

section \<open>Credential builder\<close>

text \<open>
  The values a configuration object holds. An object is the list of its own properties;
  reading a property that is not there gives \<^verbatim>\<open>undefined\<close>.
\<close>

datatype js_value =
    VUndefined
  | VNull
  | VBoolean bool
  | VNumber int
  | VNaN
  | VString string
  | VObject "(string \<times> js_value) list"

definition get_property :: "(string \<times> js_value) list \<Rightarrow> string \<Rightarrow> js_value" where
  "get_property props key = (case map_of props key of None \<Rightarrow> VUndefined | Some v \<Rightarrow> v)"

text \<open>The operator \<^verbatim>\<open>??\<close>.\<close>

definition nullish :: "js_value \<Rightarrow> js_value \<Rightarrow> js_value" where
  "nullish v d = (if v = VUndefined \<or> v = VNull then d else v)"

text \<open>
  The \<^verbatim>\<open>authentication\<close> block of a connection descriptor: its \<^verbatim>\<open>type\<close>, and its
  \<^verbatim>\<open>options\<close> object when it has one. In the descriptor, \<open>None\<close> for the block says
  that the descriptor has no \<^verbatim>\<open>authentication\<close> property.
\<close>

record authentication =
  auth_type :: string
  auth_options :: "(string \<times> js_value) list option"

record credentials =
  cred_user :: js_value
  cred_server :: js_value
  cred_database :: js_value
  cred_password :: js_value
  cred_port :: js_value
  cred_connectionTimeout :: js_value
  cred_requestTimeout :: js_value
  options_trustServerCertificate :: bool
  options_encrypt :: bool
  cred_authentication :: "authentication option"

text \<open>
  \<^verbatim>\<open>buildConfig\<close>. The built-in \<^verbatim>\<open>parseInt\<close> is a parameter. The result is the thrown
  error, or what the function returns: \<open>None\<close> is \<^verbatim>\<open>undefined\<close>, returned when no branch
  of the chain on \<^verbatim>\<open>authenticationType\<close> is taken.
\<close>

definition buildConfig ::
  "(js_value \<Rightarrow> js_value) \<Rightarrow> js_value \<Rightarrow> js_thrown + credentials option" where
  "buildConfig parseInt database =
     (case database of
        VObject props \<Rightarrow>
          (let trust_server_certificate =
                 nullish (get_property props ''trust_server_certificate'') (VString ''false'');
               encrypt = nullish (get_property props ''encrypt'') (VString ''true'');
               connection_timeout =
                 nullish (get_property props ''connection_timeout'') (VNumber 30000);
               request_timeout =
                 nullish (get_property props ''request_timeout'') (VNumber 30000);
               database_port = nullish (get_property props ''connection_port'') (VNumber 1433);
               creds =
                 \<lparr>cred_user = get_property props ''user'',
                  cred_server = get_property props ''server'',
                  cred_database = get_property props ''database'',
                  cred_password = get_property props ''password'',
                  cred_port = parseInt database_port,
                  cred_connectionTimeout = parseInt connection_timeout,
                  cred_requestTimeout = parseInt request_timeout,
                  options_trustServerCertificate =
                    (trust_server_certificate = VString ''true''
                     \<or> trust_server_certificate = VBoolean True),
                  options_encrypt = (encrypt = VString ''true'' \<or> encrypt = VBoolean True),
                  cred_authentication = None\<rparr>;
               authenticationType = get_property props ''authenticationType''
           in
             if authenticationType = VString ''default'' then Inr (Some creds)
             else if authenticationType = VString ''azure-active-directory-default'' then
               Inr (Some (creds\<lparr>cred_authentication :=
                 Some \<lparr>auth_type = ''azure-active-directory-default'',
                       auth_options = None\<rparr>\<rparr>))
             else if authenticationType = VString ''azure-active-directory-access-token'' then
               Inr (Some (creds\<lparr>cred_authentication :=
                 Some \<lparr>auth_type = ''azure-active-directory-access-token'',
                       auth_options = Some [(''token'', get_property props ''attoken'')]\<rparr>\<rparr>))
             else if authenticationType = VString ''azure-active-directory-password'' then
               Inr (Some (creds\<lparr>cred_authentication :=
                 Some \<lparr>auth_type = ''azure-active-directory-password'',
                       auth_options = Some
                         [(''userName'', get_property props ''pwuname''),
                          (''password'', get_property props ''pwpword''),
                          (''clientId'', get_property props ''pwclientid''),
                          (''tenantId'', get_property props ''pwtenantid'')]\<rparr>\<rparr>))
             else if authenticationType
                     = VString ''azure-active-directory-service-principal-secret'' then
               Inr (Some (creds\<lparr>cred_authentication :=
                 Some \<lparr>auth_type = ''azure-active-directory-service-principal-secret'',
                       auth_options = Some
                         [(''clientId'', get_property props ''spclientid''),
                          (''clientSecret'', get_property props ''spclientsecret''),
                          (''tenantId'', get_property props ''sptenantid'')]\<rparr>\<rparr>))
             else Inr None)
      | _ \<Rightarrow>
          Inl (JsError ''Error'' ''Database configuration is required and must be an object''))"

section \<open>Streaming query executor\<close>

text \<open>
  Modelled from the spec: \<^verbatim>\<open>asyncIterableToBatchedAsyncGenerator\<close> belongs to the package
  \<^verbatim>\<open>@evidence-dev/db-commons\<close>, whose code is not among the sources. Section 4.5, step 4
  of the specification: the row stream is converted into a sequence of batches, each
  containing at most \<^verbatim>\<open>batchSize\<close> rows, preserving source row order; section 8: all
  batches are of size \<^verbatim>\<open>batchSize\<close> except possibly the last. The specification gives
  no meaning to a batch size of 0, for which the model yields no batch.
\<close>

function asyncIterableToBatchedAsyncGenerator :: "'row list \<Rightarrow> nat \<Rightarrow> 'row list list" where
  "asyncIterableToBatchedAsyncGenerator rows batchSize =
     (if rows = [] \<or> batchSize = 0 then []
      else take batchSize rows
           # asyncIterableToBatchedAsyncGenerator (drop batchSize rows) batchSize)"
  by pat_completeness auto
termination
  by (relation "measure (\<lambda>(rows, batchSize). length rows)") auto

text \<open>
  The object \<^verbatim>\<open>runQuery\<close> resolves with: the batches the generator will yield, in order,
  and the two properties set on it (\<open>None\<close> for \<^verbatim>\<open>expectedRowCount\<close> is \<^verbatim>\<open>undefined\<close>).
\<close>

record 'row results =
  batches :: "'row list list"
  columnTypes :: "column_type list"
  expectedRowCount :: "int option"

text \<open>
  What the code calls and does not define, over the state \<open>'d\<close> of the driver and the
  server: the built-in \<^verbatim>\<open>parseInt\<close>; \<^verbatim>\<open>cleanQuery\<close> and \<^verbatim>\<open>exhaustStream\<close> of db-commons;
  \<^verbatim>\<open>mssql.connect\<close>; \<^verbatim>\<open>pool.request().query\<close>, which resolves with a record set, read
  here as the list of the values of its column \<^verbatim>\<open>expected_row_count\<close>; the streamed
  request, from \<^verbatim>\<open>new mssql.Request\<close> to the readable stream, which either throws or
  delivers the column metadata of the \<^verbatim>\<open>recordset\<close> event and then the rows; and
  \<^verbatim>\<open>pool.close\<close>. \<^verbatim>\<open>exhaustStream\<close> pulls every batch and may fail. A streamed request
  that never emits \<^verbatim>\<open>recordset\<close> leaves \<^verbatim>\<open>runQuery\<close> pending for ever and is outside
  this model.
\<close>

record ('d, 'row) driver =
  ext_parseInt :: "js_value \<Rightarrow> js_value"
  ext_cleanQuery :: "string \<Rightarrow> string"
  mssql_connect :: "credentials option \<Rightarrow> ('d \<Rightarrow> (js_thrown + unit) \<times> 'd)"
  pool_request_query :: "string \<Rightarrow> ('d \<Rightarrow> (js_thrown + int list) \<times> 'd)"
  request_stream :: "string \<Rightarrow> ('d \<Rightarrow> (js_thrown + column_metadata list \<times> 'row list) \<times> 'd)"
  pool_close :: "'d \<Rightarrow> (js_thrown + unit) \<times> 'd"
  exhaustStream :: "'row results option \<Rightarrow> ('d \<Rightarrow> (js_thrown + unit) \<times> 'd)"

definition count_sql :: "string \<Rightarrow> string" where
  "count_sql cleaned_string =
     ''SELECT COUNT(*) as expected_row_count FROM ('' @ cleaned_string @ '') as subquery''"

text \<open>
  A \<^verbatim>\<open>TypeError\<close> raised by the engine; the message texts are abbreviated.
\<close>

definition TypeError :: "string \<Rightarrow> js_thrown" where
  "TypeError msg = JsError ''TypeError'' msg"

text \<open>
  \<^verbatim>\<open>expected_count?.recordset[0].expected_row_count\<close>, where \<open>None\<close> is the \<^verbatim>\<open>null\<close> that
  the \<^verbatim>\<open>catch\<close> of the count step puts in \<^verbatim>\<open>expected_count\<close>.
\<close>

fun read_expected_row_count :: "int list option \<Rightarrow> js_thrown + int option" where
  "read_expected_row_count None = Inr None"
| "read_expected_row_count (Some []) =
     Inl (TypeError ''Cannot read properties of undefined (reading expected_row_count)'')"
| "read_expected_row_count (Some (c # cs)) = Inr (Some c)"

text \<open>\<^verbatim>\<open>replace(/\n|\r/g, ' ')\<close>.\<close>

definition replace_newlines :: "string \<Rightarrow> string" where
  "replace_newlines s =
     map (\<lambda>c. if c = CHR 0x0A \<or> c = CHR 0x0D then CHR '' '' else c) s"

subsection \<open>index.cjs: one shared pool, \<^verbatim>\<open>retry\<close> around the whole execution\<close>

text \<open>
  The module variable \<^verbatim>\<open>poolPromise\<close> (\<open>True\<close>: it holds a promise) and the state of the
  driver.
\<close>

record 'd world =
  poolPromise :: bool
  driver_state :: 'd

definition getPool ::
  "('d, 'row) driver \<Rightarrow> credentials option \<Rightarrow> 'd world \<Rightarrow> (js_thrown + unit) \<times> 'd world" where
  "getPool env config w =
     (if \<not> poolPromise w then
        (case mssql_connect env config (driver_state w) of
           (Inr pool, d) \<Rightarrow> (Inr pool, \<lparr>poolPromise = True, driver_state = d\<rparr>)
         | (Inl err, d) \<Rightarrow> (Inl err, \<lparr>poolPromise = False, driver_state = d\<rparr>))
      else (Inr (), w))"

definition queryExecution ::
  "('d, 'row) driver \<Rightarrow> string \<Rightarrow> js_value \<Rightarrow> nat \<Rightarrow> ('row results, 'd world) work" where
  "queryExecution env queryString database batchSize w =
     (case buildConfig (ext_parseInt env) database of
        Inl err \<Rightarrow> (Inl err, w)
      | Inr config \<Rightarrow>
          (case getPool env config w of
             (Inl err, w1) \<Rightarrow> (Inl err, w1)
           | (Inr pool, w1) \<Rightarrow>
               (let cleaned_string = ext_cleanQuery env queryString;
                    counted = pool_request_query env (count_sql cleaned_string) (driver_state w1);
                    expected_count =
                      (case fst counted of Inl err \<Rightarrow> None | Inr recordset \<Rightarrow> Some recordset);
                    w2 = w1\<lparr>driver_state := snd counted\<rparr>
                in
                  case read_expected_row_count expected_count of
                    Inl err \<Rightarrow> (Inl err, w2)
                  | Inr expected_row_count \<Rightarrow>
                      (case request_stream env queryString (driver_state w2) of
                         (Inl err, d) \<Rightarrow> (Inl err, w2\<lparr>driver_state := d\<rparr>)
                       | (Inr (columns, rows), d) \<Rightarrow>
                           (Inr \<lparr>batches = asyncIterableToBatchedAsyncGenerator rows batchSize,
                                 columnTypes = mapResultsToEvidenceColumnTypes columns,
                                 expectedRowCount = expected_row_count\<rparr>,
                            w2\<lparr>driver_state := d\<rparr>)))))"

text \<open>
  The string of the catch block:
  \<^verbatim>\<open>typeof err === 'string' ? err : (err?.message ?? err?.toString?.() ?? 'Unknown error')\<close>.
\<close>

fun errStr :: "js_thrown \<Rightarrow> string" where
  "errStr (JsString s) = s"
| "errStr (JsError nm msg) = msg"
| "errStr JsNullish = ''Unknown error''"
| "errStr (JsObject (Some msg) t) = msg"
| "errStr (JsObject None (Some t)) = t"
| "errStr (JsObject None None) = ''Unknown error''"

text \<open>
  \<^verbatim>\<open>runQuery\<close>; a \<^verbatim>\<open>database\<close> that is \<^verbatim>\<open>undefined\<close> takes the default \<^verbatim>\<open>{}\<close>.
\<close>

definition runQuery ::
  "('d, 'row) driver \<Rightarrow> string \<Rightarrow> js_value \<Rightarrow> nat \<Rightarrow> 'd world \<Rightarrow>
     'row results completion \<times> 'd world" where
  "runQuery env queryString database batchSize w =
     (let r = retry
                (queryExecution env queryString
                   (if database = VUndefined then VObject [] else database) batchSize)
                runQuery_retry_options w
      in case outcome r of
           Returned res \<Rightarrow> (Returned res, final r)
         | ReturnedUndefined \<Rightarrow> (ReturnedUndefined, final r)
         | Thrown err \<Rightarrow> (Thrown (JsString (replace_newlines (errStr err))), final r))"

text \<open>
  The handler of \<^verbatim>\<open>testConnection\<close>:
  \<^verbatim>\<open>(e) => ({ reason: e.message ?? (e.toString() || 'Invalid Credentials') })\<close>. Reading
  a property of \<^verbatim>\<open>null\<close> or \<^verbatim>\<open>undefined\<close>, or calling a \<^verbatim>\<open>toString\<close> that is not there,
  throws.
\<close>

datatype connection_test = Connected | Failed string



subsection \<open>The second variant: one connection per query, \<^verbatim>\<open>withRetry\<close> around each step\<close>

text \<open>
  The work function of the third \<^verbatim>\<open>withRetry\<close> call: the streamed request and the
  decoration of its result.
\<close>

definition streamed_query ::
  "('d, 'row) driver \<Rightarrow> string \<Rightarrow> nat \<Rightarrow> int option \<Rightarrow> ('row results, 'd) work" where
  "streamed_query env queryString batchSize expected_row_count d =
     (case request_stream env queryString d of
        (Inl err, d') \<Rightarrow> (Inl err, d')
      | (Inr (columns, rows), d') \<Rightarrow>
          (Inr \<lparr>batches = asyncIterableToBatchedAsyncGenerator rows batchSize,
                columnTypes = mapResultsToEvidenceColumnTypes columns,
                expectedRowCount = expected_row_count\<rparr>, d'))"

text \<open>
  The \<^verbatim>\<open>try\<close> block of \<^verbatim>\<open>runQuery\<close>: how it ends, the state, and whether \<^verbatim>\<open>pool\<close> has
  been assigned. \<open>retryOptions\<close> is the record that the destructuring in \<^verbatim>\<open>withRetry\<close>
  makes of \<^verbatim>\<open>database.retryOptions || {}\<close>.
\<close>

definition runQuery2_try ::
  "('d, 'row) driver \<Rightarrow> withRetry_options \<Rightarrow> (nat \<Rightarrow> real) \<Rightarrow> string \<Rightarrow> js_value \<Rightarrow> nat \<Rightarrow> 'd \<Rightarrow>
     (js_thrown + 'row results) \<times> 'd \<times> bool" where
  "runQuery2_try env retryOptions rnd queryString database batchSize d =
     (case buildConfig (ext_parseInt env) database of
        Inl err \<Rightarrow> (Inl err, d, False)
      | Inr config \<Rightarrow>
          (let connection = withRetry (mssql_connect env config) retryOptions rnd d
           in case outcome connection of
                Inl err \<Rightarrow> (Inl err, final connection, False)
              | Inr pool \<Rightarrow>
                  (let cleaned_string = ext_cleanQuery env queryString;
                       counted = withRetry (pool_request_query env (count_sql cleaned_string))
                                   retryOptions rnd (final connection);
                       expected_count =
                         (case outcome counted of
                            Inl err \<Rightarrow> None
                          | Inr recordset \<Rightarrow> Some recordset)
                   in case read_expected_row_count expected_count of
                        Inl err \<Rightarrow> (Inl err, final counted, True)
                      | Inr expected_row_count \<Rightarrow>
                          (let streamed =
                                 withRetry
                                   (streamed_query env queryString batchSize expected_row_count)
                                   retryOptions rnd (final counted)
                           in (outcome streamed, final streamed, True)))))"

text \<open>
  What the catch block throws:
  \<^verbatim>\<open>if (err.message) throw err.message.replace(...) else throw err.replace(...)\<close>. Only a
  string has a \<^verbatim>\<open>replace\<close> method; calling it on another value is a \<^verbatim>\<open>TypeError\<close>, and so
  is reading \<^verbatim>\<open>message\<close> of \<^verbatim>\<open>null\<close> or \<^verbatim>\<open>undefined\<close>.
\<close>

fun surface2 :: "js_thrown \<Rightarrow> js_thrown" where
  "surface2 (JsError nm msg) =
     (if msg \<noteq> [] then JsString (replace_newlines msg)
      else TypeError ''err.replace is not a function'')"
| "surface2 (JsString s) = JsString (replace_newlines s)"
| "surface2 (JsObject (Some msg) t) =
     (if msg \<noteq> [] then JsString (replace_newlines msg)
      else TypeError ''err.replace is not a function'')"
| "surface2 (JsObject None t) = TypeError ''err.replace is not a function''"
| "surface2 JsNullish = TypeError ''Cannot read properties of undefined (reading message)''"

definition runQuery2 ::
  "('d, 'row) driver \<Rightarrow> withRetry_options \<Rightarrow> (nat \<Rightarrow> real) \<Rightarrow> string \<Rightarrow> js_value \<Rightarrow> nat \<Rightarrow> 'd \<Rightarrow>
     (js_thrown + 'row results) \<times> 'd" where
  "runQuery2 env retryOptions rnd queryString database batchSize d =
     (case runQuery2_try env retryOptions rnd queryString
             (if database = VUndefined then VObject [] else database) batchSize d of
        (Inl err, d', pool) \<Rightarrow>
          (Inl (surface2 err), if pool then snd (pool_close env d') else d')
      | (Inr res, d', pool) \<Rightarrow> (Inr res, d'))"



subsection \<open>A driver for examples\<close>

text \<open>
  A driver without state whose connection, count query, streamed request and drain end
  the same way at every call; \<^verbatim>\<open>parseInt\<close> and \<^verbatim>\<open>cleanQuery\<close> are the identity, which is
  what they do on the numbers and the query used in the examples.
\<close>

definition fixed_driver ::
  "(js_thrown + unit) \<Rightarrow> (js_thrown + int list) \<Rightarrow>
   (js_thrown + column_metadata list \<times> int list) \<Rightarrow> (js_thrown + unit) \<Rightarrow> (unit, int) driver" where
  "fixed_driver conn cnt strm drn =
     \<lparr>ext_parseInt = (\<lambda>v. v), ext_cleanQuery = (\<lambda>q. q),
      mssql_connect = (\<lambda>config d. (conn, d)),
      pool_request_query = (\<lambda>sql d. (cnt, d)),
      request_stream = (\<lambda>sql d. (strm, d)),
      pool_close = (\<lambda>d. (Inr (), d)),
      exhaustStream = (\<lambda>res d. (drn, d))\<rparr>"

definition sql_login :: js_value where
  "sql_login =
     VObject [(''authenticationType'', VString ''default''), (''user'', VString ''sa''),
              (''password'', VString ''pw''), (''server'', VString ''db.example''),
              (''database'', VString ''sales'')]"
section \<open>Properties of the type mapper\<close>

lemma mapField_name: "name (mapField f) = field_name f"
  by (simp add: mapField_def split: option.split)

lemma mapField_number:
  "field_type f \<in> number_tags \<Longrightarrow>
     evidenceType (mapField f) = NUMBER \<and> typeFidelity (mapField f) = PRECISE"
  by (auto simp: mapField_def number_tags_def)

lemma mapField_date:
  "field_type f \<in> date_tags \<Longrightarrow>
     evidenceType (mapField f) = DATE \<and> typeFidelity (mapField f) = PRECISE"
  by (auto simp: mapField_def date_tags_def)

lemma mapField_string:
  "field_type f \<in> string_tags \<Longrightarrow>
     evidenceType (mapField f) = STRING \<and> typeFidelity (mapField f) = PRECISE"
  by (auto simp: mapField_def string_tags_def)

lemma mapField_boolean:
  "field_type f \<in> boolean_tags \<Longrightarrow>
     evidenceType (mapField f) = BOOLEAN \<and> typeFidelity (mapField f) = PRECISE"
  by (auto simp: mapField_def boolean_tags_def)

lemma mapField_default:
  "field_type f \<notin> type_table \<Longrightarrow>
     evidenceType (mapField f) = STRING \<and> typeFidelity (mapField f) = INFERRED"
  by (cases "field_type f")
    (simp_all add: mapField_def type_table_def number_tags_def date_tags_def
      string_tags_def boolean_tags_def)

text \<open>
  Claim C2, as the code has it. The mapper is a total function: it returns one entry per
  column, in the order of the input, carrying the column's name. A tag of the table gets
  its portable type with fidelity PRECISE: NUMBER for the integer, float, decimal and
  money tags, DATE for Date, DateTime, DateTime2, SmallDateTime and DateTimeOffset,
  STRING for the character, text and xml tags, BOOLEAN for Bit. Every other tag gets
  STRING with fidelity INFERRED, and the time-of-day tag Time is one of those: the
  switch lists it with the tags that fall through to the default.
\<close>

theorem type_mapper_table:
  "length (mapResultsToEvidenceColumnTypes cols) = length cols \<and>
   (\<forall>i<length cols.
      name (mapResultsToEvidenceColumnTypes cols ! i) = field_name (cols ! i) \<and>
      (field_type (cols ! i) \<in> number_tags \<longrightarrow>
         evidenceType (mapResultsToEvidenceColumnTypes cols ! i) = NUMBER \<and>
         typeFidelity (mapResultsToEvidenceColumnTypes cols ! i) = PRECISE) \<and>
      (field_type (cols ! i) \<in> date_tags \<longrightarrow>
         evidenceType (mapResultsToEvidenceColumnTypes cols ! i) = DATE \<and>
         typeFidelity (mapResultsToEvidenceColumnTypes cols ! i) = PRECISE) \<and>
      (field_type (cols ! i) \<in> string_tags \<longrightarrow>
         evidenceType (mapResultsToEvidenceColumnTypes cols ! i) = STRING \<and>
         typeFidelity (mapResultsToEvidenceColumnTypes cols ! i) = PRECISE) \<and>
      (field_type (cols ! i) \<in> boolean_tags \<longrightarrow>
         evidenceType (mapResultsToEvidenceColumnTypes cols ! i) = BOOLEAN \<and>
         typeFidelity (mapResultsToEvidenceColumnTypes cols ! i) = PRECISE) \<and>
      (field_type (cols ! i) \<notin> type_table \<longrightarrow>
         evidenceType (mapResultsToEvidenceColumnTypes cols ! i) = STRING \<and>
         typeFidelity (mapResultsToEvidenceColumnTypes cols ! i) = INFERRED)) \<and>
   TYPES_Time \<notin> type_table"
proof -
  have len: "length (mapResultsToEvidenceColumnTypes cols) = length cols"
    by (simp add: mapResultsToEvidenceColumnTypes_def)
  have nth: "mapResultsToEvidenceColumnTypes cols ! i = mapField (cols ! i)"
    if "i < length cols" for i
    using that by (simp add: mapResultsToEvidenceColumnTypes_def)
  have time: "TYPES_Time \<notin> type_table"
    by (simp add: type_table_def number_tags_def date_tags_def string_tags_def
        boolean_tags_def)
  show ?thesis
    using len time mapField_name mapField_number mapField_date mapField_string
      mapField_boolean mapField_default
    by (simp add: nth)
qed

theorem type_mapper_table_witness:
  "mapResultsToEvidenceColumnTypes
     [\<lparr>field_name = ''id'', field_type = TYPES_BigInt\<rparr>,
      \<lparr>field_name = ''seen'', field_type = TYPES_DateTime2\<rparr>,
      \<lparr>field_name = ''uid'', field_type = TYPES_UniqueIdentifier\<rparr>] ! 1
   = \<lparr>name = ''seen'', evidenceType = DATE, typeFidelity = PRECISE\<rparr> \<and>
   TYPES_DateTime2 \<in> date_tags \<and> (1::nat) < 3"
  using type_mapper_table
    [of "[\<lparr>field_name = ''id'', field_type = TYPES_BigInt\<rparr>,
          \<lparr>field_name = ''seen'', field_type = TYPES_DateTime2\<rparr>,
          \<lparr>field_name = ''uid'', field_type = TYPES_UniqueIdentifier\<rparr>]"]
  by (simp add: date_tags_def mapResultsToEvidenceColumnTypes_def mapField_def)

theorem type_mapper_time_counterexample:
  "mapResultsToEvidenceColumnTypes [\<lparr>field_name = ''t'', field_type = TYPES_Time\<rparr>]
   = [\<lparr>name = ''t'', evidenceType = STRING, typeFidelity = INFERRED\<rparr>]"
  by (simp add: mapResultsToEvidenceColumnTypes_def mapField_def)


section \<open>Properties of the retry wrappers\<close>

declare retry_loop.simps [simp del] withRetry_loop.simps [simp del]

lemma retry_loop_succeeds:
  "transient_failures (isRetryable (retryableErrors opts)) fn s k \<Longrightarrow>
   fst (fn (state_after fn s k)) = Inr v \<Longrightarrow>
   attempt + int k \<le> retries opts + 1 \<Longrightarrow>
   outcome (retry_loop fn opts attempt s) = Returned v \<and>
   calls (retry_loop fn opts attempt s) = Suc k"
proof (induction k arbitrary: attempt s)
  case 0
  then show ?case
    by (subst (1 2) retry_loop.simps) (auto split: prod.splits sum.splits)
next
  case (Suc k)
  obtain err s' where f: "fn s = (Inl err, s')" and t: "isRetryable (retryableErrors opts) err"
    and rest: "transient_failures (isRetryable (retryableErrors opts)) fn s' k"
    using Suc.prems(1) by (cases "fn s") (auto split: sum.splits)
  have ok: "fst (fn (state_after fn s' k)) = Inr v"
    using Suc.prems(2) f by simp
  have bound: "(attempt + 1) + int k \<le> retries opts + 1"
    using Suc.prems(3) by simp
  note ih = Suc.IH [OF rest ok bound]
  show ?case
    using f t ih Suc.prems(3)
    by (subst (1 2) retry_loop.simps) (simp add: Let_def)
qed

lemma retry_loop_exhausts:
  "transient_failures (isRetryable (retryableErrors opts)) fn s (Suc m) \<Longrightarrow>
   fst (fn (state_after fn s m)) = Inl e \<Longrightarrow>
   attempt + int m = retries opts + 1 \<Longrightarrow>
   outcome (retry_loop fn opts attempt s)
     = Thrown (JsError (fst (normalise e)) (snd (normalise e))) \<and>
   calls (retry_loop fn opts attempt s) = Suc m"
proof (induction m arbitrary: attempt s)
  case 0
  then show ?case
    by (subst (1 2) retry_loop.simps) (auto split: prod.splits sum.splits)
next
  case (Suc m)
  obtain err s' where f: "fn s = (Inl err, s')" and t: "isRetryable (retryableErrors opts) err"
    and rest: "transient_failures (isRetryable (retryableErrors opts)) fn s' (Suc m)"
    using Suc.prems(1) by (cases "fn s") (auto split: sum.splits)
  have last: "fst (fn (state_after fn s' m)) = Inl e"
    using Suc.prems(2) f by simp
  have bound: "(attempt + 1) + int m = retries opts + 1"
    using Suc.prems(3) by simp
  note ih = Suc.IH [OF rest last bound]
  show ?case
    using f t ih Suc.prems(3)
    by (subst (1 2) retry_loop.simps) (simp add: Let_def)
qed

lemma withRetry_loop_succeeds:
  "transient_failures shouldRetry fn s k \<Longrightarrow>
   fst (fn (state_after fn s k)) = Inr v \<Longrightarrow>
   int (attempts + k) < maxRetries opts \<Longrightarrow>
   outcome (withRetry_loop fn opts rnd attempts s) = Inr v \<and>
   calls (withRetry_loop fn opts rnd attempts s) = Suc k"
proof (induction k arbitrary: attempts s)
  case 0
  then show ?case
    by (subst (1 2) withRetry_loop.simps) (auto split: prod.splits sum.splits)
next
  case (Suc k)
  obtain err s' where f: "fn s = (Inl err, s')" and t: "shouldRetry err"
    and rest: "transient_failures shouldRetry fn s' k"
    using Suc.prems(1) by (cases "fn s") (auto split: sum.splits)
  have ok: "fst (fn (state_after fn s' k)) = Inr v"
    using Suc.prems(2) f by simp
  have bound: "int ((attempts + 1) + k) < maxRetries opts"
    using Suc.prems(3) by simp
  note ih = Suc.IH [OF rest ok bound]
  show ?case
    using f t ih Suc.prems(3)
    by (subst (1 2) withRetry_loop.simps) (simp add: Let_def)
qed

lemma withRetry_loop_exhausts:
  "transient_failures shouldRetry fn s (Suc m) \<Longrightarrow>
   fst (fn (state_after fn s m)) = Inl e \<Longrightarrow>
   int (attempts + Suc m) \<ge> maxRetries opts \<Longrightarrow>
   m = 0 \<or> int (attempts + m) < maxRetries opts \<Longrightarrow>
   outcome (withRetry_loop fn opts rnd attempts s) = Inl e \<and>
   calls (withRetry_loop fn opts rnd attempts s) = Suc m"
proof (induction m arbitrary: attempts s)
  case 0
  then show ?case
    by (subst (1 2) withRetry_loop.simps) (auto split: prod.splits sum.splits)
next
  case (Suc m)
  obtain err s' where f: "fn s = (Inl err, s')" and t: "shouldRetry err"
    and rest: "transient_failures shouldRetry fn s' (Suc m)"
    using Suc.prems(1) by (cases "fn s") (auto split: sum.splits)
  have last: "fst (fn (state_after fn s' m)) = Inl e"
    using Suc.prems(2) f by simp
  have b1: "int ((attempts + 1) + Suc m) \<ge> maxRetries opts"
    using Suc.prems(3) by simp
  have b2: "m = 0 \<or> int ((attempts + 1) + m) < maxRetries opts"
    using Suc.prems(4) by simp
  note ih = Suc.IH [OF rest last b1 b2]
  show ?case
    using f t ih Suc.prems(4)
    by (subst (1 2) withRetry_loop.simps) (simp add: Let_def)
qed

lemma withRetry_loop_waits_length:
  "length (waits (withRetry_loop fn opts rnd attempts s))
   = calls (withRetry_loop fn opts rnd attempts s) - 1 \<and>
   0 < calls (withRetry_loop fn opts rnd attempts s)"
proof (induction fn opts rnd attempts s rule: withRetry_loop.induct)
  case (1 fn opts rnd attempts s)
  show ?case
  proof (cases "fn s")
    case (Pair res s')
    show ?thesis
    proof (cases res)
      case (Inr v)
      with Pair show ?thesis by (subst (1 2 3) withRetry_loop.simps) simp
    next
      case (Inl err)
      show ?thesis
      proof (cases "int (attempts + 1) \<ge> maxRetries opts \<or> \<not> shouldRetry err")
        case True
        with Pair Inl show ?thesis by (subst (1 2 3) withRetry_loop.simps) auto
      next
        case False
        from "1.IH" [OF Pair [symmetric] Inl False refl]
        have "length (waits (withRetry_loop fn opts rnd (attempts + 1) s'))
              = calls (withRetry_loop fn opts rnd (attempts + 1) s') - 1 \<and>
              0 < calls (withRetry_loop fn opts rnd (attempts + 1) s')" .
        with Pair Inl False show ?thesis
          by (subst (1 2 3) withRetry_loop.simps) (auto simp: Let_def)
      qed
    qed
  qed
qed

lemma withRetry_loop_waits:
  "i < length (waits (withRetry_loop fn opts rnd attempts s)) \<Longrightarrow>
   waits (withRetry_loop fn opts rnd attempts s) ! i
   = min (maxDelay opts) (baseDelay opts * 2 ^ (attempts + i) * (1 + rnd (attempts + i) * 0.2))"
proof (induction fn opts rnd attempts s arbitrary: i rule: withRetry_loop.induct)
  case (1 fn opts rnd attempts s)
  show ?case
  proof (cases "fn s")
    case (Pair res s')
    show ?thesis
    proof (cases res)
      case (Inr v)
      with Pair "1.prems" show ?thesis by (subst (asm) withRetry_loop.simps) simp
    next
      case (Inl err)
      show ?thesis
      proof (cases "int (attempts + 1) \<ge> maxRetries opts \<or> \<not> shouldRetry err")
        case True
        with Pair Inl "1.prems" show ?thesis
          by (subst (asm) withRetry_loop.simps) auto
      next
        case False
        have unfold: "waits (withRetry_loop fn opts rnd attempts s)
          = min (maxDelay opts) (baseDelay opts * 2 ^ attempts * (1 + rnd attempts * 0.2))
            # waits (withRetry_loop fn opts rnd (attempts + 1) s')"
          using Pair Inl False by (subst withRetry_loop.simps) (auto simp: Let_def)
        show ?thesis
        proof (cases i)
          case 0
          then show ?thesis by (simp add: unfold)
        next
          case (Suc j)
          with "1.prems" have "j < length (waits (withRetry_loop fn opts rnd (attempts + 1) s'))"
            by (simp add: unfold)
          from "1.IH" [OF Pair [symmetric] Inl False refl this] Suc
          show ?thesis by (simp add: unfold)
        qed
      qed
    qed
  qed
qed

lemma retry_loop_waits_length:
  "length (waits (retry_loop fn opts attempt s)) = calls (retry_loop fn opts attempt s) - 1 \<and>
   (attempt \<le> retries opts + 1 \<longrightarrow> 0 < calls (retry_loop fn opts attempt s))"
proof (induction fn opts attempt s rule: retry_loop.induct)
  case (1 fn opts attempt s)
  show ?case
  proof (cases "attempt \<le> retries opts + 1")
    case False
    then show ?thesis by (subst (1 2 3) retry_loop.simps) simp
  next
    case inb: True
    show ?thesis
    proof (cases "fn s")
      case (Pair res s')
      show ?thesis
      proof (cases res)
        case (Inr v)
        with Pair inb show ?thesis by (subst (1 2 3) retry_loop.simps) simp
      next
        case (Inl err)
        show ?thesis
        proof (cases "\<not> isRetryable (retryableErrors opts) err \<or> attempt = retries opts + 1")
          case True
          with Pair Inl inb show ?thesis by (subst (1 2 3) retry_loop.simps) auto
        next
          case False
          with inb have next_in: "attempt + 1 \<le> retries opts + 1" by simp
          from "1.IH" [OF inb Pair [symmetric] Inl False refl] next_in
          have "length (waits (retry_loop fn opts (attempt + 1) s'))
                = calls (retry_loop fn opts (attempt + 1) s') - 1 \<and>
                0 < calls (retry_loop fn opts (attempt + 1) s')"
            by simp
          with Pair Inl False inb show ?thesis
            by (subst (1 2 3) retry_loop.simps) (auto simp: Let_def)
        qed
      qed
    qed
  qed
qed

lemma retry_loop_waits:
  "1 \<le> attempt \<Longrightarrow> i < length (waits (retry_loop fn opts attempt s)) \<Longrightarrow>
   waits (retry_loop fn opts attempt s) ! i
   = delay opts * backoffFactor opts ^ (nat (attempt - 1) + i)"
proof (induction fn opts attempt s arbitrary: i rule: retry_loop.induct)
  case (1 fn opts attempt s)
  show ?case
  proof (cases "attempt \<le> retries opts + 1")
    case out: False
    with "1.prems" show ?thesis by (subst (asm) retry_loop.simps) simp
  next
    case inb: True
    show ?thesis
    proof (cases "fn s")
      case (Pair res s')
      show ?thesis
      proof (cases res)
        case (Inr v)
        with Pair inb "1.prems" show ?thesis by (subst (asm) retry_loop.simps) simp
      next
        case (Inl err)
        show ?thesis
        proof (cases "\<not> isRetryable (retryableErrors opts) err \<or> attempt = retries opts + 1")
          case True
          with Pair Inl inb "1.prems" show ?thesis
            by (subst (asm) retry_loop.simps) auto
        next
          case False
          have unfold: "waits (retry_loop fn opts attempt s)
            = delay opts * backoffFactor opts ^ nat (attempt - 1)
              # waits (retry_loop fn opts (attempt + 1) s')"
            using Pair Inl False inb by (subst retry_loop.simps) (auto simp: Let_def)
          show ?thesis
          proof (cases i)
            case 0
            then show ?thesis by (simp add: unfold)
          next
            case (Suc j)
            with "1.prems" have j: "j < length (waits (retry_loop fn opts (attempt + 1) s'))"
              by (simp add: unfold)
            have a: "1 \<le> attempt + 1" using "1.prems" by simp
            have n: "nat (attempt + 1 - 1) = Suc (nat (attempt - 1))"
              using "1.prems" by simp
            from "1.IH" [OF inb Pair [symmetric] Inl False refl a j] Suc n
            show ?thesis by (simp add: unfold)
          qed
        qed
      qed
    qed
  qed
qed

lemma retry_succeeds:
  assumes "0 \<le> retries opts"
    and "transient_failures (isRetryable (retryableErrors opts)) fn s k"
    and "fst (fn (state_after fn s k)) = Inr v"
    and "int k \<le> retries opts"
  shows "outcome (retry fn opts s) = Returned v \<and> calls (retry fn opts s) = k + 1"
  using retry_loop_succeeds [OF assms(2) assms(3), where attempt = 1] assms(4)
  by (simp add: retry_def)

lemma retry_exhausts:
  assumes "0 \<le> retries opts"
    and "transient_failures (isRetryable (retryableErrors opts)) fn s (nat (retries opts) + 1)"
    and "fst (fn (state_after fn s (nat (retries opts)))) = Inl e"
  shows "outcome (retry fn opts s) = Thrown (JsError (fst (normalise e)) (snd (normalise e))) \<and>
         calls (retry fn opts s) = nat (retries opts) + 1"
  using retry_loop_exhausts [where opts = opts and fn = fn and s = s and m = "nat (retries opts)"
      and e = e and attempt = 1] assms
  by (simp add: retry_def)

lemma withRetry_succeeds:
  assumes "transient_failures shouldRetry fn s k"
    and "fst (fn (state_after fn s k)) = Inr v"
    and "int k < maxRetries opts"
  shows "outcome (withRetry fn opts rnd s) = Inr v \<and>
         calls (withRetry fn opts rnd s) = k + 1"
  using withRetry_loop_succeeds [OF assms(1) assms(2), where attempts = 0 and opts = opts
      and rnd = rnd] assms(3)
  by (simp add: withRetry_def)

lemma withRetry_exhausts:
  assumes "transient_failures shouldRetry fn s (nat (max 1 (maxRetries opts)))"
    and "fst (fn (state_after fn s (nat (max 1 (maxRetries opts)) - 1))) = Inl e"
  shows "outcome (withRetry fn opts rnd s) = Inl e \<and>
         calls (withRetry fn opts rnd s) = nat (max 1 (maxRetries opts))"
proof -
  define m where "m = nat (max 1 (maxRetries opts)) - 1"
  have n: "nat (max 1 (maxRetries opts)) = Suc m"
    by (simp add: m_def)
  have b1: "int (0 + Suc m) \<ge> maxRetries opts"
    using n by linarith
  have b2: "m = 0 \<or> int (0 + m) < maxRetries opts"
    using n by linarith
  have f: "transient_failures shouldRetry fn s (Suc m)"
    using assms(1) unfolding n .
  have l: "fst (fn (state_after fn s m)) = Inl e"
    using assms(2) unfolding m_def .
  have "outcome (withRetry_loop fn opts rnd 0 s) = Inl e \<and>
        calls (withRetry_loop fn opts rnd 0 s) = Suc m"
    by (rule withRetry_loop_exhausts [OF f l b1 b2])
  then show ?thesis
    unfolding withRetry_def n .
qed


lemma timeout_matches: "matches_retryable ''ETIMEOUT''"
  by code_simp

lemma timeout_isRetryable:
  "isRetryable runQuery_retryableErrors (JsError ''ConnectionError'' ''ETIMEOUT'')"
  by code_simp

lemma bad_sql_not_isRetryable:
  "\<not> isRetryable runQuery_retryableErrors (JsString ''bad SQL'')"
  by (simp add: isRetryable_def runQuery_retryableErrors_def js_includes_def errorMessage_def
      sublist_code(3))

text \<open>
  Claim C1, as the code has it. A work function that fails \<open>k\<close> times with errors the
  wrapper classifies as transient and then succeeds: \<^verbatim>\<open>withRetry\<close> with \<open>maxRetries > k\<close>
  returns its result after exactly \<open>k + 1\<close> invocations, and so does \<^verbatim>\<open>retry\<close> of
  index.cjs, already with \<open>retries \<ge> k\<close>. A work function that keeps failing with such
  errors: \<^verbatim>\<open>withRetry\<close> rethrows the last error after exactly \<open>max 1 maxRetries\<close>
  invocations, and \<^verbatim>\<open>retry\<close> (for \<open>retries \<ge> 0\<close>) throws the last error, normalised to
  an \<^verbatim>\<open>Error\<close> instance, after exactly \<open>retries + 1\<close> invocations.
\<close>

theorem retry_attempts:
  "(transient_failures shouldRetry fn s k \<and> fst (fn (state_after fn s k)) = Inr v \<and>
      int k < maxRetries wopts \<longrightarrow>
      outcome (withRetry fn wopts rnd s) = Inr v \<and>
      calls (withRetry fn wopts rnd s) = k + 1) \<and>
   (transient_failures shouldRetry fn s (nat (max 1 (maxRetries wopts))) \<and>
      fst (fn (state_after fn s (nat (max 1 (maxRetries wopts)) - 1))) = Inl e \<longrightarrow>
      outcome (withRetry fn wopts rnd s) = Inl e \<and>
      calls (withRetry fn wopts rnd s) = nat (max 1 (maxRetries wopts))) \<and>
   (0 \<le> retries ropts \<and>
      transient_failures (isRetryable (retryableErrors ropts)) fn s k \<and>
      fst (fn (state_after fn s k)) = Inr v \<and> int k \<le> retries ropts \<longrightarrow>
      outcome (retry fn ropts s) = Returned v \<and> calls (retry fn ropts s) = k + 1) \<and>
   (0 \<le> retries ropts \<and>
      transient_failures (isRetryable (retryableErrors ropts)) fn s (nat (retries ropts) + 1) \<and>
      fst (fn (state_after fn s (nat (retries ropts)))) = Inl e \<longrightarrow>
      outcome (retry fn ropts s) = Thrown (JsError (fst (normalise e)) (snd (normalise e))) \<and>
      calls (retry fn ropts s) = nat (retries ropts) + 1)"
  using withRetry_succeeds [of fn s k v wopts rnd] withRetry_exhausts [of fn s wopts e rnd]
    retry_succeeds [of ropts fn s k v] retry_exhausts [of ropts fn s e]
  by blast


theorem retry_attempts_witness:
  "transient_failures shouldRetry
     (scripted [Inl (JsError ''ConnectionError'' ''ETIMEOUT''),
                Inl (JsError ''ConnectionError'' ''ETIMEOUT''), Inr (7::nat)] 0) 0 2 \<and>
   outcome (withRetry
     (scripted [Inl (JsError ''ConnectionError'' ''ETIMEOUT''),
                Inl (JsError ''ConnectionError'' ''ETIMEOUT''), Inr (7::nat)] 0)
     withRetry_defaults (\<lambda>i. 0) 0) = Inr 7 \<and>
   calls (withRetry
     (scripted [Inl (JsError ''ConnectionError'' ''ETIMEOUT''),
                Inl (JsError ''ConnectionError'' ''ETIMEOUT''), Inr (7::nat)] 0)
     withRetry_defaults (\<lambda>i. 0) 0) = 3 \<and>
   calls (retry
     (scripted [Inl (JsError ''ConnectionError'' ''ETIMEOUT''),
                Inl (JsError ''ConnectionError'' ''ETIMEOUT''), Inr (7::nat)] 0)
     runQuery_retry_options 0) = 3 \<and>
   transient_failures shouldRetry
     (scripted (replicate 4 (Inl (JsError ''ConnectionError'' ''ETIMEOUT''))) (0::nat)) 0 3 \<and>
   outcome (withRetry
     (scripted (replicate 4 (Inl (JsError ''ConnectionError'' ''ETIMEOUT''))) (0::nat))
     withRetry_defaults (\<lambda>i. 0) 0) = Inl (JsError ''ConnectionError'' ''ETIMEOUT'') \<and>
   calls (withRetry
     (scripted (replicate 4 (Inl (JsError ''ConnectionError'' ''ETIMEOUT''))) (0::nat))
     withRetry_defaults (\<lambda>i. 0) 0) = 3 \<and>
   calls (retry
     (scripted (replicate 4 (Inl (JsError ''ConnectionError'' ''ETIMEOUT''))) (0::nat))
     runQuery_retry_options 0) = 4"
proof -
  let ?E = "JsError ''ConnectionError'' ''ETIMEOUT''"
  let ?f = "scripted [Inl ?E, Inl ?E, Inr (7::nat)] 0"
  let ?g = "scripted (replicate 4 (Inl ?E)) (0::nat)"
  have r: "retryableErrors runQuery_retry_options = runQuery_retryableErrors"
    "retries runQuery_retry_options = 3" "maxRetries withRetry_defaults = 3"
    by (simp_all add: runQuery_retry_options_def withRetry_defaults_def)
  have f1: "transient_failures shouldRetry ?f 0 2"
    by (simp add: eval_nat_numeral scripted_def timeout_matches)
  have f2: "transient_failures (isRetryable runQuery_retryableErrors) ?f 0 2"
    by (simp add: eval_nat_numeral scripted_def timeout_isRetryable)
  have f3: "fst (?f (state_after ?f 0 2)) = Inr 7"
    by (simp add: eval_nat_numeral scripted_def)
  have g1: "transient_failures shouldRetry ?g 0 3"
    by (simp add: eval_nat_numeral scripted_def timeout_matches)
  have g2: "transient_failures (isRetryable runQuery_retryableErrors) ?g 0 4"
    by (simp add: eval_nat_numeral scripted_def timeout_isRetryable)
  have g3: "fst (?g (state_after ?g 0 2)) = Inl ?E" "fst (?g (state_after ?g 0 3)) = Inl ?E"
    by (simp_all add: eval_nat_numeral scripted_def)
  show ?thesis
    using retry_attempts [of ?f 0 2 7 withRetry_defaults "\<lambda>i. 0" ?E runQuery_retry_options]
      retry_attempts [of ?g 0 2 7 withRetry_defaults "\<lambda>i. 0" ?E runQuery_retry_options]
      f1 f2 f3 g1 g2 g3
    by (simp add: r)
qed

theorem retry_attempts_counterexample:
  "calls (retry
     (scripted (replicate 4 (Inl (JsError ''ConnectionError'' ''ETIMEOUT''))) (0::nat))
     runQuery_retry_options 0) = 4 \<and>
   retries runQuery_retry_options = 3 \<and>
   calls (withRetry
     (scripted (replicate 4 (Inl (JsError ''ConnectionError'' ''ETIMEOUT''))) (0::nat))
     (withRetry_defaults\<lparr>maxRetries := 0\<rparr>) (\<lambda>i. 0) 0) = 1"
proof -
  let ?E = "JsError ''ConnectionError'' ''ETIMEOUT''"
  let ?g = "scripted (replicate 4 (Inl ?E)) (0::nat)"
  have r: "retryableErrors runQuery_retry_options = runQuery_retryableErrors"
    "retries runQuery_retry_options = 3"
    by (simp_all add: runQuery_retry_options_def)
  have g2: "transient_failures (isRetryable (retryableErrors runQuery_retry_options)) ?g 0
              (nat (retries runQuery_retry_options) + 1)"
    by (simp add: r eval_nat_numeral scripted_def timeout_isRetryable)
  have g3: "fst (?g (state_after ?g 0 (nat (retries runQuery_retry_options)))) = Inl ?E"
    by (simp add: r eval_nat_numeral scripted_def)
  have a: "calls (retry ?g runQuery_retry_options 0) = 4"
    using retry_exhausts [OF _ g2 g3] by (simp add: r)
  have b: "calls (withRetry ?g (withRetry_defaults\<lparr>maxRetries := 0\<rparr>) (\<lambda>i. 0) 0) = 1"
    by (simp add: withRetry_def withRetry_loop.simps scripted_def withRetry_defaults_def)
  show ?thesis using a b r(2) by simp
qed

lemma bad_sql_not_matches: "\<not> matches_retryable ''bad SQL''"
  by (simp add: matches_retryable_def withRetry_retryableErrors_def js_includes_def
      toLowerCase_def toLowerCase_char_def sublist_code(3))

lemma withRetry_not_retryable:
  assumes "fn s = (Inl e, s')" and "\<not> shouldRetry e"
  shows "withRetry fn opts rnd s = \<lparr>outcome = Inl e, calls = 1, waits = [], final = s'\<rparr>"
  using assms by (simp add: withRetry_def withRetry_loop.simps)

lemma retry_not_retryable:
  assumes "fn s = (Inl e, s')" and "\<not> isRetryable (retryableErrors opts) e"
    and "0 \<le> retries opts"
  shows "retry fn opts s =
    \<lparr>outcome = Thrown (JsError (fst (normalise e)) (snd (normalise e))),
     calls = 1, waits = [], final = s'\<rparr>"
  using assms by (simp add: retry_def retry_loop.simps)

text \<open>
  Claim C3, as the code has it. When the first invocation fails with an error that
  matches no transient signature, the work function is invoked exactly once, whatever the
  limit: \<^verbatim>\<open>withRetry\<close> rethrows the very value the work function threw, and \<^verbatim>\<open>retry\<close> of
  index.cjs (\<open>retries \<ge> 0\<close>) throws the value after its normalisation, which is the
  thrown value itself when that is an \<^verbatim>\<open>Error\<close> instance and a new \<^verbatim>\<open>Error\<close> wrapping
  it otherwise.
\<close>

theorem non_retryable_error:
  "(fn s = (Inl e, s') \<and> \<not> shouldRetry e \<longrightarrow>
      outcome (withRetry fn wopts rnd s) = Inl e \<and>
      calls (withRetry fn wopts rnd s) = 1) \<and>
   (fn s = (Inl e, s') \<and> \<not> isRetryable (retryableErrors ropts) e \<and> 0 \<le> retries ropts \<longrightarrow>
      outcome (retry fn ropts s) = Thrown (JsError (fst (normalise e)) (snd (normalise e))) \<and>
      calls (retry fn ropts s) = 1) \<and>
   JsError (fst (normalise (JsError nm msg))) (snd (normalise (JsError nm msg)))
     = JsError nm msg"
  using withRetry_not_retryable [of fn s e s' wopts rnd] retry_not_retryable [of fn s e s' ropts]
  by simp

theorem non_retryable_error_witness:
  "\<not> shouldRetry (JsString ''bad SQL'') \<and>
   \<not> isRetryable (retryableErrors runQuery_retry_options) (JsString ''bad SQL'') \<and>
   outcome (withRetry (\<lambda>s. (Inl (JsString ''bad SQL'') :: js_thrown + nat, Suc s))
     withRetry_defaults (\<lambda>i. 0) (0::nat)) = Inl (JsString ''bad SQL'') \<and>
   calls (withRetry (\<lambda>s. (Inl (JsString ''bad SQL'') :: js_thrown + nat, Suc s))
     withRetry_defaults (\<lambda>i. 0) (0::nat)) = 1 \<and>
   calls (retry (\<lambda>s. (Inl (JsString ''bad SQL'') :: js_thrown + nat, Suc s))
     runQuery_retry_options (0::nat)) = 1"
proof -
  have r: "retryableErrors runQuery_retry_options = runQuery_retryableErrors"
    "retries runQuery_retry_options = 3"
    by (simp_all add: runQuery_retry_options_def)
  show ?thesis
    using non_retryable_error
      [of "\<lambda>s. (Inl (JsString ''bad SQL'') :: js_thrown + nat, Suc s)" "0::nat"
        "JsString ''bad SQL''" "Suc 0" withRetry_defaults "\<lambda>i. 0" runQuery_retry_options]
      bad_sql_not_matches bad_sql_not_isRetryable
    by (simp add: r)
qed

theorem non_retryable_error_counterexample:
  "outcome (retry (\<lambda>s. (Inl (JsString ''bad SQL'') :: js_thrown + nat, Suc s))
     runQuery_retry_options (0::nat)) = Thrown (JsError ''Error'' ''bad SQL'') \<and>
   outcome (retry (\<lambda>s. (Inl (JsString ''bad SQL'') :: js_thrown + nat, Suc s))
     runQuery_retry_options (0::nat)) \<noteq> Thrown (JsString ''bad SQL'')"
proof -
  have r: "retryableErrors runQuery_retry_options = runQuery_retryableErrors"
    "retries runQuery_retry_options = 3"
    by (simp_all add: runQuery_retry_options_def)
  show ?thesis
    using retry_not_retryable
      [of "\<lambda>s. (Inl (JsString ''bad SQL'') :: js_thrown + nat, Suc s)" "0::nat"
        "JsString ''bad SQL''" "Suc 0" runQuery_retry_options]
      bad_sql_not_isRetryable
    by (simp add: r)
qed

lemma isRetryable_empty: "\<not> isRetryable [] e"
  by (simp add: isRetryable_def)

text \<open>
  Claim C10, as the code has it. \<^verbatim>\<open>retryableErrors\<close> defaults to the empty list, and with
  the empty list every error is classified non-retryable. Then, for every \<open>retries \<ge> 0\<close>
  and whatever \<^verbatim>\<open>delay\<close> and \<^verbatim>\<open>backoffFactor\<close> are, the work function is invoked exactly
  once and there is no wait: its result is returned, or its error (normalised) thrown.
  For \<open>retries < 0\<close> the loop body is never entered: the work function is not invoked and
  the wrapper returns \<^verbatim>\<open>undefined\<close>.
\<close>

theorem retry_default_retryableErrors:
  "retryableErrors retry_defaults = [] \<and>
   (retryableErrors opts = [] \<and> 0 \<le> retries opts \<longrightarrow>
      calls (retry fn opts s) = 1 \<and> waits (retry fn opts s) = [] \<and>
      final (retry fn opts s) = snd (fn s) \<and>
      outcome (retry fn opts s) =
        (case fst (fn s) of
           Inr v \<Rightarrow> Returned v
         | Inl e \<Rightarrow> Thrown (JsError (fst (normalise e)) (snd (normalise e))))) \<and>
   (retries opts < 0 \<longrightarrow>
      calls (retry fn opts s) = 0 \<and> outcome (retry fn opts s) = ReturnedUndefined)"
  by (cases "fn s")
    (auto simp: retry_defaults_def retry_def retry_loop.simps isRetryable_empty
      split: sum.splits)

theorem retry_default_retryableErrors_witness:
  "retryableErrors (retry_defaults\<lparr>retries := 5, delay := 10, backoffFactor := 4\<rparr>) = [] \<and>
   calls (retry
     (scripted (replicate 9 (Inl (JsError ''ConnectionError'' ''ETIMEOUT''))) (0::nat))
     (retry_defaults\<lparr>retries := 5, delay := 10, backoffFactor := 4\<rparr>) 0) = 1"
  using retry_default_retryableErrors
    [of "retry_defaults\<lparr>retries := 5, delay := 10, backoffFactor := 4\<rparr>"
      "scripted (replicate 9 (Inl (JsError ''ConnectionError'' ''ETIMEOUT''))) (0::nat)" 0]
  by (simp add: retry_defaults_def)

theorem retry_default_retryableErrors_counterexample:
  "calls (retry
     (scripted (replicate 9 (Inl (JsError ''ConnectionError'' ''ETIMEOUT''))) (0::nat))
     (retry_defaults\<lparr>retries := - 1\<rparr>) 0) = 0 \<and>
   outcome (retry
     (scripted (replicate 9 (Inl (JsError ''ConnectionError'' ''ETIMEOUT''))) (0::nat))
     (retry_defaults\<lparr>retries := - 1\<rparr>) 0) = ReturnedUndefined"
  by (simp add: retry_def retry_loop.simps retry_defaults_def)

text \<open>
  Claim C6, as the code has it. Both wrappers wait once after each failed attempt that is
  retried, so the number of waits is the number of invocations less one. In \<^verbatim>\<open>withRetry\<close>
  the wait after attempt \<open>i + 1\<close> is \<open>min maxDelay (baseDelay * 2 ^ i * jitter)\<close> with
  \<open>jitter = 1 + 0.2 * r\<close>, \<open>r\<close> being the value \<^verbatim>\<open>Math.random()\<close> returned, so that
  \<open>1 \<le> jitter < 1.2\<close> when \<open>0 \<le> r < 1\<close>. \<^verbatim>\<open>retry\<close> of index.cjs has neither jitter nor
  cap: its wait after attempt \<open>i + 1\<close> is \<open>delay * backoffFactor ^ i\<close>.
\<close>

theorem retry_wait_times:
  "length (waits (withRetry fn wopts rnd s)) = calls (withRetry fn wopts rnd s) - 1 \<and>
   (\<forall>i<length (waits (withRetry fn wopts rnd s)).
      waits (withRetry fn wopts rnd s) ! i
        = min (maxDelay wopts) (baseDelay wopts * 2 ^ i * (1 + rnd i * 0.2)) \<and>
      (0 \<le> rnd i \<and> rnd i < 1 \<longrightarrow> 1 \<le> 1 + rnd i * 0.2 \<and> 1 + rnd i * 0.2 < 1.2)) \<and>
   length (waits (retry fn ropts s)) = calls (retry fn ropts s) - 1 \<and>
   (\<forall>i<length (waits (retry fn ropts s)).
      waits (retry fn ropts s) ! i = delay ropts * backoffFactor ropts ^ i)"
  using withRetry_loop_waits_length [of fn wopts rnd 0 s]
    withRetry_loop_waits [of _ fn wopts rnd 0 s] retry_loop_waits [of 1 _ fn ropts s]
    retry_loop_waits_length [of fn ropts 1 s]
  by (simp add: withRetry_def retry_def)

theorem retry_wait_times_witness:
  "waits (withRetry
     (scripted (replicate 4 (Inl (JsError ''ConnectionError'' ''ETIMEOUT''))) (0::nat))
     withRetry_defaults (\<lambda>i. 1 / 2) 0) = [1100, 2200] \<and>
   calls (withRetry
     (scripted (replicate 4 (Inl (JsError ''ConnectionError'' ''ETIMEOUT''))) (0::nat))
     withRetry_defaults (\<lambda>i. 1 / 2) 0) = 3 \<and>
   waits (withRetry
     (scripted (replicate 4 (Inl (JsError ''ConnectionError'' ''ETIMEOUT''))) (0::nat))
     withRetry_defaults (\<lambda>i. 1 / 2) 0) ! 1
     = min (maxDelay withRetry_defaults)
         (baseDelay withRetry_defaults * 2 ^ 1 * (1 + (1 / 2) * 0.2)) \<and>
   waits (retry
     (scripted (replicate 4 (Inl (JsError ''ConnectionError'' ''ETIMEOUT''))) (0::nat))
     runQuery_retry_options 0) = [1000, 2000, 4000] \<and>
   calls (retry
     (scripted (replicate 4 (Inl (JsError ''ConnectionError'' ''ETIMEOUT''))) (0::nat))
     runQuery_retry_options 0) = 4 \<and>
   waits (retry
     (scripted (replicate 4 (Inl (JsError ''ConnectionError'' ''ETIMEOUT''))) (0::nat))
     runQuery_retry_options 0) ! 2
     = delay runQuery_retry_options * backoffFactor runQuery_retry_options ^ 2"
proof -
  let ?g = "scripted (replicate 4 (Inl (JsError ''ConnectionError'' ''ETIMEOUT''))) (0::nat)"
  have w: "withRetry ?g withRetry_defaults (\<lambda>i. 1 / 2) 0
    = \<lparr>outcome = Inl (JsError ''ConnectionError'' ''ETIMEOUT''), calls = 3,
       waits = [1100, 2200], final = 3\<rparr>"
    by (simp add: withRetry_def withRetry_loop.simps scripted_def withRetry_defaults_def
        timeout_matches Let_def)
  have r: "retry ?g runQuery_retry_options 0
    = \<lparr>outcome = Thrown (JsError ''ConnectionError'' ''ETIMEOUT''), calls = 4,
       waits = [1000, 2000, 4000], final = 4\<rparr>"
    by (simp add: retry_def retry_loop.simps scripted_def runQuery_retry_options_def
        timeout_isRetryable Let_def)
  show ?thesis
    using retry_wait_times [of ?g withRetry_defaults "\<lambda>i. 1 / 2" 0 runQuery_retry_options]
      w r
    by (simp add: withRetry_defaults_def runQuery_retry_options_def)
qed

theorem retry_wait_times_counterexample:
  "waits (retry
     (scripted (replicate 4 (Inl (JsError ''ConnectionError'' ''ETIMEOUT''))) (0::nat))
     (runQuery_retry_options\<lparr>backoffFactor := 3\<rparr>) 0) ! 1 = 3000 \<and>
   (3000::real) > 1000 * 2 ^ (2 - 1) * 1.2"
  by (simp add: retry_def retry_loop.simps scripted_def runQuery_retry_options_def
      timeout_isRetryable Let_def)

section \<open>Properties of the credential builder\<close>

lemma buildConfig_object:
  "\<exists>r. buildConfig parseInt (VObject props) = Inr r"
  by (simp add: buildConfig_def Let_def)

lemma buildConfig_default:
  "get_property props ''authenticationType'' = VString ''default'' \<Longrightarrow>
   \<exists>c. buildConfig parseInt (VObject props) = Inr (Some c) \<and> cred_authentication c = None"
  by (simp add: buildConfig_def Let_def)

lemma buildConfig_aad_default:
  "get_property props ''authenticationType'' = VString ''azure-active-directory-default'' \<Longrightarrow>
   \<exists>c. buildConfig parseInt (VObject props) = Inr (Some c) \<and>
     cred_authentication c
       = Some \<lparr>auth_type = ''azure-active-directory-default'', auth_options = None\<rparr>"
  by (simp add: buildConfig_def Let_def)

lemma buildConfig_access_token:
  "get_property props ''authenticationType''
     = VString ''azure-active-directory-access-token'' \<Longrightarrow>
   \<exists>c. buildConfig parseInt (VObject props) = Inr (Some c) \<and>
     cred_authentication c
       = Some \<lparr>auth_type = ''azure-active-directory-access-token'',
               auth_options = Some [(''token'', get_property props ''attoken'')]\<rparr>"
  by (simp add: buildConfig_def Let_def)

lemma buildConfig_password:
  "get_property props ''authenticationType'' = VString ''azure-active-directory-password'' \<Longrightarrow>
   \<exists>c. buildConfig parseInt (VObject props) = Inr (Some c) \<and>
     cred_authentication c
       = Some \<lparr>auth_type = ''azure-active-directory-password'',
               auth_options = Some
                 [(''userName'', get_property props ''pwuname''),
                  (''password'', get_property props ''pwpword''),
                  (''clientId'', get_property props ''pwclientid''),
                  (''tenantId'', get_property props ''pwtenantid'')]\<rparr>"
  by (simp add: buildConfig_def Let_def)

lemma buildConfig_service_principal:
  "get_property props ''authenticationType''
     = VString ''azure-active-directory-service-principal-secret'' \<Longrightarrow>
   \<exists>c. buildConfig parseInt (VObject props) = Inr (Some c) \<and>
     cred_authentication c
       = Some \<lparr>auth_type = ''azure-active-directory-service-principal-secret'',
               auth_options = Some
                 [(''clientId'', get_property props ''spclientid''),
                  (''clientSecret'', get_property props ''spclientsecret''),
                  (''tenantId'', get_property props ''sptenantid'')]\<rparr>"
  by (simp add: buildConfig_def Let_def)

lemma buildConfig_unknown:
  "get_property props ''authenticationType''
     \<notin> {VString ''default'', VString ''azure-active-directory-default'',
        VString ''azure-active-directory-access-token'',
        VString ''azure-active-directory-password'',
        VString ''azure-active-directory-service-principal-secret''} \<Longrightarrow>
   buildConfig parseInt (VObject props) = Inr None"
  by (simp add: buildConfig_def Let_def)

text \<open>
  Claim C4, as the code has it. Given a configuration object, \<^verbatim>\<open>buildConfig\<close> never
  throws. For each of the four \<^verbatim>\<open>azure-active-directory-*\<close> values of
  \<^verbatim>\<open>authenticationType\<close> it returns a descriptor whose \<^verbatim>\<open>authentication\<close> block has that
  type and the option fields of that variant only (no options at all for
  \<^verbatim>\<open>azure-active-directory-default\<close>). For \<^verbatim>\<open>default\<close> it returns the descriptor with no
  \<^verbatim>\<open>authentication\<close> block. For every other value, a missing one included, it returns
  \<^verbatim>\<open>undefined\<close>: no descriptor at all.
\<close>

theorem buildConfig_dispatch:
  "(\<exists>r. buildConfig parseInt (VObject props) = Inr r) \<and>
   (get_property props ''authenticationType'' = VString ''default'' \<longrightarrow>
      (\<exists>c. buildConfig parseInt (VObject props) = Inr (Some c) \<and>
         cred_authentication c = None)) \<and>
   (get_property props ''authenticationType'' = VString ''azure-active-directory-default'' \<longrightarrow>
      (\<exists>c. buildConfig parseInt (VObject props) = Inr (Some c) \<and>
         cred_authentication c
           = Some \<lparr>auth_type = ''azure-active-directory-default'', auth_options = None\<rparr>)) \<and>
   (get_property props ''authenticationType''
      = VString ''azure-active-directory-access-token'' \<longrightarrow>
      (\<exists>c. buildConfig parseInt (VObject props) = Inr (Some c) \<and>
         cred_authentication c
           = Some \<lparr>auth_type = ''azure-active-directory-access-token'',
                   auth_options = Some [(''token'', get_property props ''attoken'')]\<rparr>)) \<and>
   (get_property props ''authenticationType'' = VString ''azure-active-directory-password'' \<longrightarrow>
      (\<exists>c. buildConfig parseInt (VObject props) = Inr (Some c) \<and>
         cred_authentication c
           = Some \<lparr>auth_type = ''azure-active-directory-password'',
                   auth_options = Some
                     [(''userName'', get_property props ''pwuname''),
                      (''password'', get_property props ''pwpword''),
                      (''clientId'', get_property props ''pwclientid''),
                      (''tenantId'', get_property props ''pwtenantid'')]\<rparr>)) \<and>
   (get_property props ''authenticationType''
      = VString ''azure-active-directory-service-principal-secret'' \<longrightarrow>
      (\<exists>c. buildConfig parseInt (VObject props) = Inr (Some c) \<and>
         cred_authentication c
           = Some \<lparr>auth_type = ''azure-active-directory-service-principal-secret'',
                   auth_options = Some
                     [(''clientId'', get_property props ''spclientid''),
                      (''clientSecret'', get_property props ''spclientsecret''),
                      (''tenantId'', get_property props ''sptenantid'')]\<rparr>)) \<and>
   (get_property props ''authenticationType''
      \<notin> {VString ''default'', VString ''azure-active-directory-default'',
         VString ''azure-active-directory-access-token'',
         VString ''azure-active-directory-password'',
         VString ''azure-active-directory-service-principal-secret''} \<longrightarrow>
      buildConfig parseInt (VObject props) = Inr None)"
  using buildConfig_object [of parseInt props] buildConfig_default [of props parseInt]
    buildConfig_aad_default [of props parseInt] buildConfig_access_token [of props parseInt]
    buildConfig_password [of props parseInt] buildConfig_service_principal [of props parseInt]
    buildConfig_unknown [of props parseInt]
  by blast

theorem buildConfig_dispatch_witness:
  "get_property
     [(''authenticationType'', VString ''azure-active-directory-access-token''),
      (''server'', VString ''db.example''), (''attoken'', VString ''tok'')]
     ''authenticationType'' = VString ''azure-active-directory-access-token'' \<and>
   (\<exists>c. buildConfig (\<lambda>v. v)
      (VObject [(''authenticationType'', VString ''azure-active-directory-access-token''),
                (''server'', VString ''db.example''), (''attoken'', VString ''tok'')])
      = Inr (Some c) \<and>
      cred_authentication c
        = Some \<lparr>auth_type = ''azure-active-directory-access-token'',
                auth_options = Some [(''token'', VString ''tok'')]\<rparr>)"
  using buildConfig_dispatch
    [of "\<lambda>v. v"
      "[(''authenticationType'', VString ''azure-active-directory-access-token''),
        (''server'', VString ''db.example''), (''attoken'', VString ''tok'')]"]
  by (simp add: get_property_def)

theorem buildConfig_dispatch_counterexample:
  "buildConfig (\<lambda>v. v)
     (VObject [(''authenticationType'', VString ''default''), (''user'', VString ''sa''),
               (''password'', VString ''pw''), (''server'', VString ''db.example''),
               (''database'', VString ''sales'')])
   = Inr (Some
      \<lparr>cred_user = VString ''sa'', cred_server = VString ''db.example'',
       cred_database = VString ''sales'', cred_password = VString ''pw'',
       cred_port = VNumber 1433, cred_connectionTimeout = VNumber 30000,
       cred_requestTimeout = VNumber 30000, options_trustServerCertificate = False,
       options_encrypt = True, cred_authentication = None\<rparr>) \<and>
   buildConfig (\<lambda>v. v)
     (VObject [(''authenticationType'', VString ''sqlauth''), (''user'', VString ''sa''),
               (''password'', VString ''pw'')])
   = Inr None"
  by (simp add: buildConfig_def get_property_def nullish_def)

section \<open>Properties of the query executor\<close>

declare asyncIterableToBatchedAsyncGenerator.simps [simp del]

lemma last_batch_count: "0 < n \<Longrightarrow> n \<le> b \<Longrightarrow> (n + b - 1) div b = (1::nat)"
proof -
  assume a: "0 < n" "n \<le> b"
  then have e: "n + b - 1 = (n - 1) + b" by simp
  have z: "(n - 1) div b = 0" using a by simp
  have nz: "b \<noteq> 0" using a by simp
  have "(n + b - 1) div b = ((n - 1) + b) div b" by (simp only: e)
  also have "\<dots> = (n - 1) div b + 1" using nz by (rule div_add_self2)
  also have "\<dots> = 1" by (simp only: z)
  finally show ?thesis .
qed

lemma ceiling_as_div:
  assumes "0 < b"
  shows "\<lceil>real a / real b\<rceil> = int ((a + b - 1) div b)"
proof -
  define q where "q = (a + b - 1) div b"
  have lo: "q * b \<le> a + b - 1"
    unfolding q_def by simp
  have hi: "a + b - 1 < (q + 1) * b"
    unfolding q_def using assms
    by (metis Suc_eq_plus1 dividend_less_div_times add.commute mult.commute mult_Suc)
  have up: "a \<le> q * b" using hi assms by (cases a) (simp_all add: algebra_simps)
  have dn: "q * b < a + b" using lo assms by linarith
  have 1: "real a / real b \<le> of_int (int q)"
    using up assms
    by (simp add: pos_divide_le_eq) (metis of_nat_le_iff of_nat_mult)
  have 2: "of_int (int q) - 1 < real a / real b"
  proof -
    have "real (q * b) < real (a + b)" using dn by (simp only: of_nat_less_iff)
    then have "real q * real b - real b < real a" by simp
    then have "(real q - 1) * real b < real a" by (simp add: algebra_simps)
    then show ?thesis using assms by (simp add: pos_less_divide_eq)
  qed
  show ?thesis
    unfolding q_def [symmetric] by (rule ceiling_unique [OF 2 1])
qed

lemma batches_concat:
  "0 < batchSize \<Longrightarrow> concat (asyncIterableToBatchedAsyncGenerator rows batchSize) = rows"
proof (induction rows batchSize rule: asyncIterableToBatchedAsyncGenerator.induct)
  case (1 rows batchSize)
  then show ?case
    by (subst asyncIterableToBatchedAsyncGenerator.simps) auto
qed

lemma batches_sizes:
  "0 < batchSize \<Longrightarrow> b \<in> set (asyncIterableToBatchedAsyncGenerator rows batchSize) \<Longrightarrow>
   0 < length b \<and> length b \<le> batchSize"
proof (induction rows batchSize rule: asyncIterableToBatchedAsyncGenerator.induct)
  case (1 rows batchSize)
  from "1.prems"(2) show ?case
  proof (subst (asm) asyncIterableToBatchedAsyncGenerator.simps, cases "rows = []")
    case True
    then show ?thesis using "1.prems" by (simp add: asyncIterableToBatchedAsyncGenerator.simps)
  next
    case False
    then show ?thesis
      using "1.prems" "1.IH"
      by (subst (asm) asyncIterableToBatchedAsyncGenerator.simps) (auto split: if_splits)
  qed
qed

lemma batches_full:
  "0 < batchSize \<Longrightarrow> i + 1 < length (asyncIterableToBatchedAsyncGenerator rows batchSize) \<Longrightarrow>
   length (asyncIterableToBatchedAsyncGenerator rows batchSize ! i) = batchSize"
proof (induction rows batchSize arbitrary: i rule: asyncIterableToBatchedAsyncGenerator.induct)
  case (1 rows batchSize)
  show ?case
  proof (cases "rows = []")
    case True
    with "1.prems" show ?thesis by (simp add: asyncIterableToBatchedAsyncGenerator.simps)
  next
    case False
    have unfold: "asyncIterableToBatchedAsyncGenerator rows batchSize
      = take batchSize rows # asyncIterableToBatchedAsyncGenerator (drop batchSize rows) batchSize"
      using False "1.prems"(1) by (subst asyncIterableToBatchedAsyncGenerator.simps) simp
    show ?thesis
    proof (cases i)
      case 0
      have "asyncIterableToBatchedAsyncGenerator (drop batchSize rows) batchSize \<noteq> []"
        using "1.prems"(2) 0 by (simp add: unfold)
      then have "drop batchSize rows \<noteq> []"
        by (subst (asm) asyncIterableToBatchedAsyncGenerator.simps) (auto split: if_splits)
      then show ?thesis using 0 by (simp add: unfold)
    next
      case (Suc j)
      have "j + 1 < length (asyncIterableToBatchedAsyncGenerator (drop batchSize rows) batchSize)"
        using "1.prems"(2) Suc by (simp add: unfold)
      from "1.IH" [OF _ "1.prems"(1) this] False "1.prems"(1) Suc
      show ?thesis by (simp add: unfold)
    qed
  qed
qed

lemma batches_count:
  "0 < batchSize \<Longrightarrow>
   length (asyncIterableToBatchedAsyncGenerator rows batchSize)
   = (length rows + batchSize - 1) div batchSize"
proof (induction rows batchSize rule: asyncIterableToBatchedAsyncGenerator.induct)
  case (1 rows batchSize)
  show ?case
  proof (cases "rows = []")
    case True
    with "1.prems" show ?thesis by (simp add: asyncIterableToBatchedAsyncGenerator.simps)
  next
    case False
    have unfold: "asyncIterableToBatchedAsyncGenerator rows batchSize
      = take batchSize rows # asyncIterableToBatchedAsyncGenerator (drop batchSize rows) batchSize"
      using False "1.prems" by (subst asyncIterableToBatchedAsyncGenerator.simps) simp
    have ih: "length (asyncIterableToBatchedAsyncGenerator (drop batchSize rows) batchSize)
      = (length rows - batchSize + batchSize - 1) div batchSize"
      using "1.IH" [OF _ "1.prems"] False "1.prems" by simp
    show ?thesis
    proof (cases "length rows \<le> batchSize")
      case True
      with False have "(length rows + batchSize - 1) div batchSize = 1"
        using last_batch_count [of "length rows" batchSize] by simp
      moreover have "(length rows - batchSize + batchSize - 1) div batchSize = 0"
        using True "1.prems" by simp
      ultimately show ?thesis by (simp add: unfold ih)
    next
      case gt: False
      then have "length rows + batchSize - 1 = (length rows - 1) + 1 * batchSize"
        by simp
      then have "(length rows + batchSize - 1) div batchSize
        = Suc ((length rows - 1) div batchSize)"
        using "1.prems" by (simp only: div_mult_self1)
      moreover have "length rows - batchSize + batchSize - 1 = length rows - 1"
        using gt by simp
      ultimately show ?thesis by (simp add: unfold ih)
    qed
  qed
qed

lemma withRetry_first_success:
  "fn s = (Inr v, s') \<Longrightarrow>
   withRetry fn opts rnd s = \<lparr>outcome = Inr v, calls = 1, waits = [], final = s'\<rparr>"
  by (simp add: withRetry_def withRetry_loop.simps)


lemma batches_properties:
  assumes B: "0 < batchSize"
  shows "concat (asyncIterableToBatchedAsyncGenerator rows batchSize) = rows \<and>
    int (length (asyncIterableToBatchedAsyncGenerator rows batchSize))
      = \<lceil>real (length rows) / real batchSize\<rceil> \<and>
    (\<forall>i. i + 1 < length (asyncIterableToBatchedAsyncGenerator rows batchSize) \<longrightarrow>
       length (asyncIterableToBatchedAsyncGenerator rows batchSize ! i) = batchSize) \<and>
    (\<forall>b \<in> set (asyncIterableToBatchedAsyncGenerator rows batchSize).
       0 < length b \<and> length b \<le> batchSize)"
proof (intro conjI)
  show "concat (asyncIterableToBatchedAsyncGenerator rows batchSize) = rows"
    by (rule batches_concat [OF B])
  show "int (length (asyncIterableToBatchedAsyncGenerator rows batchSize))
      = \<lceil>real (length rows) / real batchSize\<rceil>"
    by (simp only: batches_count [OF B] ceiling_as_div [OF B])
  show "\<forall>i. i + 1 < length (asyncIterableToBatchedAsyncGenerator rows batchSize) \<longrightarrow>
       length (asyncIterableToBatchedAsyncGenerator rows batchSize ! i) = batchSize"
    using batches_full [OF B, of _ rows] by blast
  show "\<forall>b \<in> set (asyncIterableToBatchedAsyncGenerator rows batchSize).
       0 < length b \<and> length b \<le> batchSize"
    using batches_sizes [OF B, of _ rows] by blast
qed

lemma queryExecution_produces:
  assumes bc: "buildConfig (ext_parseInt env) database = Inr config"
    and gp: "getPool env config w = (Inr (), w1)"
    and cnt: "pool_request_query env (count_sql (ext_cleanQuery env queryString)) (driver_state w1)
              = (cr, d2)"
    and rc: "read_expected_row_count (case cr of Inl err \<Rightarrow> None | Inr recordset \<Rightarrow> Some recordset)
             = Inr erc"
    and st: "request_stream env queryString d2 = (Inr (columns, rows), d3)"
  shows "fst (queryExecution env queryString database batchSize w)
    = Inr \<lparr>batches = asyncIterableToBatchedAsyncGenerator rows batchSize,
           columnTypes = mapResultsToEvidenceColumnTypes columns,
           expectedRowCount = erc\<rparr>"
  by (simp add: queryExecution_def bc gp cnt rc st Let_def)

lemma runQuery_produces:
  assumes db: "db = (if database = VUndefined then VObject [] else database)"
    and tf: "transient_failures (isRetryable runQuery_retryableErrors)
               (queryExecution env queryString db batchSize) w k"
    and k: "k \<le> 3"
    and bc: "buildConfig (ext_parseInt env) db = Inr config"
    and gp: "getPool env config (state_after (queryExecution env queryString db batchSize) w k)
             = (Inr (), w1)"
    and cnt: "pool_request_query env (count_sql (ext_cleanQuery env queryString)) (driver_state w1)
              = (cr, d2)"
    and rc: "read_expected_row_count (case cr of Inl err \<Rightarrow> None | Inr recordset \<Rightarrow> Some recordset)
             = Inr erc"
    and st: "request_stream env queryString d2 = (Inr (columns, rows), d3)"
  shows "fst (runQuery env queryString database batchSize w)
    = Returned \<lparr>batches = asyncIterableToBatchedAsyncGenerator rows batchSize,
                columnTypes = mapResultsToEvidenceColumnTypes columns,
                expectedRowCount = erc\<rparr>"
proof -
  let ?fn = "queryExecution env queryString db batchSize"
  let ?res = "\<lparr>batches = asyncIterableToBatchedAsyncGenerator rows batchSize,
                columnTypes = mapResultsToEvidenceColumnTypes columns,
                expectedRowCount = erc\<rparr>"
  have s: "fst (?fn (state_after ?fn w k)) = Inr ?res"
    by (rule queryExecution_produces [OF bc gp cnt rc st])
  have t: "transient_failures (isRetryable (retryableErrors runQuery_retry_options)) ?fn w k"
    using tf by (simp add: runQuery_retry_options_def)
  have "outcome (retry ?fn runQuery_retry_options w) = Returned ?res"
    using retry_succeeds [OF _ t s] k by (simp add: runQuery_retry_options_def)
  then show ?thesis
    by (simp add: runQuery_def Let_def db [symmetric])
qed

lemma streamed_query_run:
  "transient_failures p (streamed_query env queryString batchSize erc) d k
     = transient_failures p (request_stream env queryString) d k \<and>
   state_after (streamed_query env queryString batchSize erc) d k
     = state_after (request_stream env queryString) d k"
proof (induction k arbitrary: d)
  case 0
  show ?case by simp
next
  case (Suc k)
  obtain out d' where r: "request_stream env queryString d = (out, d')"
    by (cases "request_stream env queryString d")
  show ?case
  proof (cases out)
    case (Inl err)
    with r have "streamed_query env queryString batchSize erc d = (Inl err, d')"
      by (simp add: streamed_query_def)
    with r Inl Suc [of d'] show ?thesis by simp
  next
    case (Inr v)
    obtain columns rows where v: "v = (columns, rows)" by (cases v)
    with r Inr have "\<exists>res. streamed_query env queryString batchSize erc d = (Inr res, d')"
      by (simp add: streamed_query_def)
    with r Inr Suc [of d'] show ?thesis by auto
  qed
qed

lemma runQuery2_produces:
  assumes db: "db = (if database = VUndefined then VObject [] else database)"
    and bc: "buildConfig (ext_parseInt env) db = Inr config"
    and cn: "connection = withRetry (mssql_connect env config) retryOptions rnd d"
    and co: "outcome connection = Inr ()"
    and cnt: "counted = withRetry (pool_request_query env (count_sql (ext_cleanQuery env queryString)))
                retryOptions rnd (final connection)"
    and rc: "read_expected_row_count
               (case outcome counted of Inl err \<Rightarrow> None | Inr recordset \<Rightarrow> Some recordset)
             = Inr erc"
    and tf: "transient_failures shouldRetry (request_stream env queryString) (final counted) k"
    and k: "int k < max 1 (maxRetries retryOptions)"
    and st: "request_stream env queryString
               (state_after (request_stream env queryString) (final counted) k)
             = (Inr (columns, rows), d3)"
  shows "fst (runQuery2 env retryOptions rnd queryString database batchSize d)
    = Inr \<lparr>batches = asyncIterableToBatchedAsyncGenerator rows batchSize,
           columnTypes = mapResultsToEvidenceColumnTypes columns,
           expectedRowCount = erc\<rparr>"
proof -
  let ?fn = "streamed_query env queryString batchSize erc"
  let ?res = "\<lparr>batches = asyncIterableToBatchedAsyncGenerator rows batchSize,
                columnTypes = mapResultsToEvidenceColumnTypes columns,
                expectedRowCount = erc\<rparr>"
  have t: "transient_failures shouldRetry ?fn (final counted) k"
    using tf by (simp add: streamed_query_run)
  have s: "?fn (state_after ?fn (final counted) k) = (Inr ?res, d3)"
    using st by (simp add: streamed_query_run streamed_query_def)
  have o: "outcome (withRetry ?fn retryOptions rnd (final counted)) = Inr ?res"
  proof (cases k)
    case 0
    with s have "?fn (final counted) = (Inr ?res, d3)" by simp
    then have "withRetry ?fn retryOptions rnd (final counted)
      = \<lparr>outcome = Inr ?res, calls = 1, waits = [], final = d3\<rparr>"
      by (rule withRetry_first_success)
    then show ?thesis by simp
  next
    case (Suc j)
    with k have b: "int k < maxRetries retryOptions" by simp
    have "fst (?fn (state_after ?fn (final counted) k)) = Inr ?res" using s by simp
    from withRetry_succeeds [OF t this b] show ?thesis by simp
  qed
  show ?thesis
    using o rc co
    by (simp add: runQuery2_def runQuery2_try_def db [symmetric] bc cn [symmetric]
        cnt [symmetric] Let_def)
qed

lemma sql_login_config: "\<exists>config. buildConfig (\<lambda>v. v) sql_login = Inr config"
  by (simp add: sql_login_def buildConfig_object)


text \<open>
  Claim C5, on the batching the specification describes
  (\<^verbatim>\<open>asyncIterableToBatchedAsyncGenerator\<close> itself is not among the sources), for a batch
  size \<open>B > 0\<close>. In index.cjs: when the first \<open>k \<le> 3\<close> executions fail with retryable
  errors and the next one gets its pool, does not read an empty count record set, and its
  streamed request delivers the \<open>R\<close> rows \<open>rows\<close>, \<^verbatim>\<open>runQuery\<close> resolves, and the batches
  of its result are those of \<open>rows\<close>: concatenated in order they are \<open>rows\<close>, there are
  \<open>\<lceil>R / B\<rceil>\<close> of them, every batch but the last has exactly \<open>B\<close> rows, and every batch has
  at least one row and at most \<open>B\<close>. In the second variant: the same, when the connection
  step succeeds, the count step does not end with an empty record set, and the streamed
  request fails \<open>k\<close> times with retryable errors, within the retry budget, before it
  delivers \<open>rows\<close>.
\<close>

theorem result_batches:
  "(0 < batchSize \<and>
    db = (if database = VUndefined then VObject [] else database) \<and>
    transient_failures (isRetryable runQuery_retryableErrors)
      (queryExecution env queryString db batchSize) w k \<and>
    k \<le> 3 \<and>
    buildConfig (ext_parseInt env) db = Inr config \<and>
    getPool env config (state_after (queryExecution env queryString db batchSize) w k)
      = (Inr (), w1) \<and>
    pool_request_query env (count_sql (ext_cleanQuery env queryString)) (driver_state w1)
      = (cr, d2) \<and>
    cr \<noteq> Inr [] \<and>
    request_stream env queryString d2 = (Inr (columns, rows), d3) \<longrightarrow>
    (\<exists>res. fst (runQuery env queryString database batchSize w) = Returned res \<and>
       concat (batches res) = rows \<and>
       int (length (batches res)) = \<lceil>real (length rows) / real batchSize\<rceil> \<and>
       (\<forall>i. i + 1 < length (batches res) \<longrightarrow> length (batches res ! i) = batchSize) \<and>
       (\<forall>b \<in> set (batches res). 0 < length b \<and> length b \<le> batchSize))) \<and>
   (0 < batchSize \<and>
    db = (if database = VUndefined then VObject [] else database) \<and>
    buildConfig (ext_parseInt env) db = Inr config \<and>
    connection = withRetry (mssql_connect env config) retryOptions rnd d \<and>
    outcome connection = Inr () \<and>
    counted = withRetry (pool_request_query env (count_sql (ext_cleanQuery env queryString)))
                retryOptions rnd (final connection) \<and>
    outcome counted \<noteq> Inr [] \<and>
    transient_failures shouldRetry (request_stream env queryString) (final counted) k \<and>
    int k < max 1 (maxRetries retryOptions) \<and>
    request_stream env queryString
      (state_after (request_stream env queryString) (final counted) k)
      = (Inr (columns, rows), d3) \<longrightarrow>
    (\<exists>res. fst (runQuery2 env retryOptions rnd queryString database batchSize d) = Inr res \<and>
       concat (batches res) = rows \<and>
       int (length (batches res)) = \<lceil>real (length rows) / real batchSize\<rceil> \<and>
       (\<forall>i. i + 1 < length (batches res) \<longrightarrow> length (batches res ! i) = batchSize) \<and>
       (\<forall>b \<in> set (batches res). 0 < length b \<and> length b \<le> batchSize)))"
proof (intro conjI impI; elim conjE)
  assume B: "0 < batchSize"
    and db: "db = (if database = VUndefined then VObject [] else database)"
    and tf: "transient_failures (isRetryable runQuery_retryableErrors)
      (queryExecution env queryString db batchSize) w k"
    and k: "k \<le> 3"
    and bc: "buildConfig (ext_parseInt env) db = Inr config"
    and gp: "getPool env config (state_after (queryExecution env queryString db batchSize) w k)
      = (Inr (), w1)"
    and cnt: "pool_request_query env (count_sql (ext_cleanQuery env queryString)) (driver_state w1)
      = (cr, d2)"
    and cr: "cr \<noteq> Inr []"
    and st: "request_stream env queryString d2 = (Inr (columns, rows), d3)"
  obtain erc where rc:
    "read_expected_row_count (case cr of Inl err \<Rightarrow> None | Inr recordset \<Rightarrow> Some recordset)
     = Inr erc"
    using cr by (cases cr; cases "projr cr") auto
  note r = runQuery_produces [OF db tf k bc gp cnt rc st]
  show "\<exists>res. fst (runQuery env queryString database batchSize w) = Returned res \<and>
       concat (batches res) = rows \<and>
       int (length (batches res)) = \<lceil>real (length rows) / real batchSize\<rceil> \<and>
       (\<forall>i. i + 1 < length (batches res) \<longrightarrow> length (batches res ! i) = batchSize) \<and>
       (\<forall>b \<in> set (batches res). 0 < length b \<and> length b \<le> batchSize)"
    using r batches_properties [OF B, of rows] by simp
next
  assume B: "0 < batchSize"
    and db: "db = (if database = VUndefined then VObject [] else database)"
    and bc: "buildConfig (ext_parseInt env) db = Inr config"
    and cn: "connection = withRetry (mssql_connect env config) retryOptions rnd d"
    and co: "outcome connection = Inr ()"
    and cnt: "counted = withRetry (pool_request_query env (count_sql (ext_cleanQuery env queryString)))
                retryOptions rnd (final connection)"
    and cr: "outcome counted \<noteq> Inr []"
    and tf: "transient_failures shouldRetry (request_stream env queryString) (final counted) k"
    and k: "int k < max 1 (maxRetries retryOptions)"
    and st: "request_stream env queryString
      (state_after (request_stream env queryString) (final counted) k)
      = (Inr (columns, rows), d3)"
  obtain erc where rc:
    "read_expected_row_count
       (case outcome counted of Inl err \<Rightarrow> None | Inr recordset \<Rightarrow> Some recordset)
     = Inr erc"
    using cr by (cases "outcome counted"; cases "projr (outcome counted)") auto
  note r = runQuery2_produces [OF db bc cn co cnt rc tf k st]
  show "\<exists>res. fst (runQuery2 env retryOptions rnd queryString database batchSize d) = Inr res \<and>
       concat (batches res) = rows \<and>
       int (length (batches res)) = \<lceil>real (length rows) / real batchSize\<rceil> \<and>
       (\<forall>i. i + 1 < length (batches res) \<longrightarrow> length (batches res ! i) = batchSize) \<and>
       (\<forall>b \<in> set (batches res). 0 < length b \<and> length b \<le> batchSize)"
    using r batches_properties [OF B, of rows] by simp
qed

lemma fixed_driver_runQuery:
  "runQuery
     (fixed_driver (Inr ()) (Inr [5])
        (Inr ([\<lparr>field_name = ''n'', field_type = TYPES_Int\<rparr>], [10, 20, 30, 40, 50])) (Inr ()))
     ''SELECT n FROM t'' sql_login 2 \<lparr>poolPromise = False, driver_state = ()\<rparr>
   = (Returned \<lparr>batches = [[10, 20], [30, 40], [50]],
                columnTypes = [\<lparr>name = ''n'', evidenceType = NUMBER, typeFidelity = PRECISE\<rparr>],
                expectedRowCount = Some 5\<rparr>,
      \<lparr>poolPromise = True, driver_state = ()\<rparr>)"
proof -
  obtain config where c: "buildConfig (\<lambda>v. v) sql_login = Inr config"
    using sql_login_config by blast
  have v: "sql_login \<noteq> VUndefined" by (simp add: sql_login_def)
  show ?thesis
    by (simp add: runQuery_def retry_def retry_loop.simps queryExecution_def fixed_driver_def
        getPool_def c v Let_def runQuery_retry_options_def
        asyncIterableToBatchedAsyncGenerator.simps mapResultsToEvidenceColumnTypes_def
        mapField_def)
qed

lemma fixed_driver_runQuery2:
  "runQuery2
     (fixed_driver (Inr ()) (Inr [5])
        (Inr ([\<lparr>field_name = ''n'', field_type = TYPES_Int\<rparr>], [10, 20, 30, 40, 50])) (Inr ()))
     withRetry_defaults (\<lambda>i. 0) ''SELECT n FROM t'' sql_login 2 ()
   = (Inr \<lparr>batches = [[10, 20], [30, 40], [50]],
            columnTypes = [\<lparr>name = ''n'', evidenceType = NUMBER, typeFidelity = PRECISE\<rparr>],
            expectedRowCount = Some 5\<rparr>, ())"
proof -
  obtain config where c: "buildConfig (\<lambda>v. v) sql_login = Inr config"
    using sql_login_config by blast
  have v: "sql_login \<noteq> VUndefined" by (simp add: sql_login_def)
  show ?thesis
    by (simp add: runQuery2_def runQuery2_try_def withRetry_def withRetry_loop.simps
        streamed_query_def fixed_driver_def c v Let_def
        asyncIterableToBatchedAsyncGenerator.simps mapResultsToEvidenceColumnTypes_def
        mapField_def)
qed

theorem result_batches_witness:
  "(0::nat) < 2 \<and>
   (\<exists>config.
      buildConfig
        (ext_parseInt (fixed_driver (Inr ()) (Inr [5])
          (Inr ([\<lparr>field_name = ''n'', field_type = TYPES_Int\<rparr>], [10, 20, 30, 40, 50]))
          (Inr ()))) sql_login = Inr config \<and>
      getPool (fixed_driver (Inr ()) (Inr [5])
          (Inr ([\<lparr>field_name = ''n'', field_type = TYPES_Int\<rparr>], [10, 20, 30, 40, 50]))
          (Inr ())) config \<lparr>poolPromise = False, driver_state = ()\<rparr>
        = (Inr (), \<lparr>poolPromise = True, driver_state = ()\<rparr>) \<and>
      outcome (withRetry (mssql_connect (fixed_driver (Inr ()) (Inr [5])
          (Inr ([\<lparr>field_name = ''n'', field_type = TYPES_Int\<rparr>], [10, 20, 30, 40, 50]))
          (Inr ())) config) withRetry_defaults (\<lambda>i. 0) ()) = Inr ()) \<and>
   pool_request_query (fixed_driver (Inr ()) (Inr [5])
       (Inr ([\<lparr>field_name = ''n'', field_type = TYPES_Int\<rparr>], [10, 20, 30, 40, 50]))
       (Inr ())) (count_sql ''SELECT n FROM t'') () = (Inr [5], ()) \<and>
   request_stream (fixed_driver (Inr ()) (Inr [5])
       (Inr ([\<lparr>field_name = ''n'', field_type = TYPES_Int\<rparr>], [10, 20, 30, 40, 50]))
       (Inr ())) ''SELECT n FROM t'' ()
     = (Inr ([\<lparr>field_name = ''n'', field_type = TYPES_Int\<rparr>], [10, 20, 30, 40, 50]), ()) \<and>
   (\<exists>res. fst (runQuery
       (fixed_driver (Inr ()) (Inr [5])
          (Inr ([\<lparr>field_name = ''n'', field_type = TYPES_Int\<rparr>], [10, 20, 30, 40, 50]))
          (Inr ()))
       ''SELECT n FROM t'' sql_login 2 \<lparr>poolPromise = False, driver_state = ()\<rparr>)
      = Returned res \<and>
      batches res = [[10, 20], [30, 40], [50]] \<and>
      concat (batches res) = [10, 20, 30, 40, 50] \<and>
      int (length (batches res)) = \<lceil>real (length [10, 20, 30, 40, 50 :: int]) / real (2::nat)\<rceil>) \<and>
   (\<exists>res. fst (runQuery2
       (fixed_driver (Inr ()) (Inr [5])
          (Inr ([\<lparr>field_name = ''n'', field_type = TYPES_Int\<rparr>], [10, 20, 30, 40, 50]))
          (Inr ()))
       withRetry_defaults (\<lambda>i. 0) ''SELECT n FROM t'' sql_login 2 ()) = Inr res \<and>
      batches res = [[10, 20], [30, 40], [50]] \<and>
      concat (batches res) = [10, 20, 30, 40, 50] \<and>
      int (length (batches res)) = \<lceil>real (length [10, 20, 30, 40, 50 :: int]) / real (2::nat)\<rceil>)"
proof -
  let ?cols = "[\<lparr>field_name = ''n'', field_type = TYPES_Int\<rparr>]"
  let ?rows = "[10, 20, 30, 40, 50 :: int]"
  let ?fd = "fixed_driver (Inr ()) (Inr [5]) (Inr (?cols, ?rows)) (Inr ())"
  let ?q = "''SELECT n FROM t''"
  let ?w = "\<lparr>poolPromise = False, driver_state = ()\<rparr>"
  let ?w1 = "\<lparr>poolPromise = True, driver_state = ()\<rparr>"
  obtain config where c: "buildConfig (\<lambda>v. v) sql_login = Inr config"
    using sql_login_config by blast
  let ?connection = "withRetry (mssql_connect ?fd config) withRetry_defaults (\<lambda>i. 0) ()"
  let ?counted = "withRetry (pool_request_query ?fd (count_sql (ext_cleanQuery ?fd ?q)))
                    withRetry_defaults (\<lambda>i. 0) (final ?connection)"
  have v: "sql_login \<noteq> VUndefined" by (simp add: sql_login_def)
  have bc: "buildConfig (ext_parseInt ?fd) sql_login = Inr config"
    using c by (simp add: fixed_driver_def)
  have gp: "getPool ?fd config ?w = (Inr (), ?w1)"
    by (simp add: getPool_def fixed_driver_def)
  have cq: "pool_request_query ?fd (count_sql ?q) () = (Inr [5], ())"
    by (simp add: fixed_driver_def)
  have cl: "ext_cleanQuery ?fd ?q = ?q"
    by (simp add: fixed_driver_def)
  have st: "request_stream ?fd ?q () = (Inr (?cols, ?rows), ())"
    by (simp add: fixed_driver_def)
  have cn: "?connection = \<lparr>outcome = Inr (), calls = 1, waits = [], final = ()\<rparr>"
    by (rule withRetry_first_success) (simp add: fixed_driver_def)
  have ct: "?counted = \<lparr>outcome = Inr [5], calls = 1, waits = [], final = ()\<rparr>"
    by (rule withRetry_first_success) (simp add: fixed_driver_def)
  have one: "\<exists>res. fst (runQuery ?fd ?q sql_login 2 ?w) = Returned res \<and>
      concat (batches res) = ?rows \<and>
      int (length (batches res)) = \<lceil>real (length ?rows) / real (2::nat)\<rceil> \<and>
      (\<forall>i. i + 1 < length (batches res) \<longrightarrow> length (batches res ! i) = 2) \<and>
      (\<forall>b \<in> set (batches res). 0 < length b \<and> length b \<le> 2)"
    using result_batches [THEN conjunct1, rule_format,
        where batchSize = 2 and db = sql_login and database = sql_login and env = ?fd
          and queryString = ?q and w = ?w and k = 0 and config = config and ?w1.0 = ?w1
          and cr = "Inr [5]" and ?d2.0 = "()" and columns = ?cols and rows = ?rows
          and ?d3.0 = "()"]
      v bc gp cq cl st
    by simp
  have two: "\<exists>res. fst (runQuery2 ?fd withRetry_defaults (\<lambda>i. 0) ?q sql_login 2 ()) = Inr res \<and>
      concat (batches res) = ?rows \<and>
      int (length (batches res)) = \<lceil>real (length ?rows) / real (2::nat)\<rceil> \<and>
      (\<forall>i. i + 1 < length (batches res) \<longrightarrow> length (batches res ! i) = 2) \<and>
      (\<forall>b \<in> set (batches res). 0 < length b \<and> length b \<le> 2)"
    using result_batches [THEN conjunct2, rule_format,
        where batchSize = 2 and db = sql_login and database = sql_login and env = ?fd
          and queryString = ?q and k = 0 and config = config
          and connection = ?connection and counted = ?counted
          and retryOptions = withRetry_defaults and rnd = "\<lambda>i. 0" and d = "()"
          and columns = ?cols and rows = ?rows and ?d3.0 = "()"]
      v bc cn ct st
    by (simp add: withRetry_defaults_def)
  show ?thesis
    using one two bc gp cn cq st fixed_driver_runQuery fixed_driver_runQuery2
    by auto
qed

text \<open>
  Claim C9. A count query that fails, whatever the error, does not abort the query. In
  index.cjs: when the first \<open>k \<le> 3\<close> executions fail with retryable errors, and in the
  next one the pool is obtained, the count query is rejected, and the streamed request
  that follows delivers \<open>columns\<close> and \<open>rows\<close>, then \<^verbatim>\<open>runQuery\<close> resolves with the batches of
  \<open>rows\<close>, the column types of \<open>columns\<close> and no \<^verbatim>\<open>expectedRowCount\<close>; when instead the count
  query resolves with a first record \<open>c\<close>, it resolves with the same batches and column
  types, and \<^verbatim>\<open>expectedRowCount\<close> \<open>c\<close>. In the second variant: the same, where the count step
  is the count query under \<^verbatim>\<open>withRetry\<close>, it follows a connection step that succeeded, and
  the streamed request may fail \<open>k\<close> times with retryable errors, within the retry budget,
  before it delivers.
\<close>

theorem count_failure_not_fatal:
  "(db = (if database = VUndefined then VObject [] else database) \<and>
    transient_failures (isRetryable runQuery_retryableErrors)
      (queryExecution env queryString db batchSize) w k \<and>
    k \<le> 3 \<and>
    buildConfig (ext_parseInt env) db = Inr config \<and>
    getPool env config (state_after (queryExecution env queryString db batchSize) w k)
      = (Inr (), w1) \<and>
    pool_request_query env (count_sql (ext_cleanQuery env queryString)) (driver_state w1)
      = (Inl e, d2) \<and>
    request_stream env queryString d2 = (Inr (columns, rows), d3) \<longrightarrow>
    fst (runQuery env queryString database batchSize w)
      = Returned \<lparr>batches = asyncIterableToBatchedAsyncGenerator rows batchSize,
                  columnTypes = mapResultsToEvidenceColumnTypes columns,
                  expectedRowCount = None\<rparr>) \<and>
   (db = (if database = VUndefined then VObject [] else database) \<and>
    transient_failures (isRetryable runQuery_retryableErrors)
      (queryExecution env queryString db batchSize) w k \<and>
    k \<le> 3 \<and>
    buildConfig (ext_parseInt env) db = Inr config \<and>
    getPool env config (state_after (queryExecution env queryString db batchSize) w k)
      = (Inr (), w1) \<and>
    pool_request_query env (count_sql (ext_cleanQuery env queryString)) (driver_state w1)
      = (Inr (c # cs), d2) \<and>
    request_stream env queryString d2 = (Inr (columns, rows), d3) \<longrightarrow>
    fst (runQuery env queryString database batchSize w)
      = Returned \<lparr>batches = asyncIterableToBatchedAsyncGenerator rows batchSize,
                  columnTypes = mapResultsToEvidenceColumnTypes columns,
                  expectedRowCount = Some c\<rparr>) \<and>
   (db = (if database = VUndefined then VObject [] else database) \<and>
    buildConfig (ext_parseInt env) db = Inr config \<and>
    connection = withRetry (mssql_connect env config) retryOptions rnd d \<and>
    outcome connection = Inr () \<and>
    counted = withRetry (pool_request_query env (count_sql (ext_cleanQuery env queryString)))
                retryOptions rnd (final connection) \<and>
    outcome counted = Inl e \<and>
    transient_failures shouldRetry (request_stream env queryString) (final counted) k \<and>
    int k < max 1 (maxRetries retryOptions) \<and>
    request_stream env queryString
      (state_after (request_stream env queryString) (final counted) k)
      = (Inr (columns, rows), d3) \<longrightarrow>
    fst (runQuery2 env retryOptions rnd queryString database batchSize d)
      = Inr \<lparr>batches = asyncIterableToBatchedAsyncGenerator rows batchSize,
             columnTypes = mapResultsToEvidenceColumnTypes columns,
             expectedRowCount = None\<rparr>) \<and>
   (db = (if database = VUndefined then VObject [] else database) \<and>
    buildConfig (ext_parseInt env) db = Inr config \<and>
    connection = withRetry (mssql_connect env config) retryOptions rnd d \<and>
    outcome connection = Inr () \<and>
    counted = withRetry (pool_request_query env (count_sql (ext_cleanQuery env queryString)))
                retryOptions rnd (final connection) \<and>
    outcome counted = Inr (c # cs) \<and>
    transient_failures shouldRetry (request_stream env queryString) (final counted) k \<and>
    int k < max 1 (maxRetries retryOptions) \<and>
    request_stream env queryString
      (state_after (request_stream env queryString) (final counted) k)
      = (Inr (columns, rows), d3) \<longrightarrow>
    fst (runQuery2 env retryOptions rnd queryString database batchSize d)
      = Inr \<lparr>batches = asyncIterableToBatchedAsyncGenerator rows batchSize,
             columnTypes = mapResultsToEvidenceColumnTypes columns,
             expectedRowCount = Some c\<rparr>)"
proof (intro conjI impI; elim conjE)
  assume db: "db = (if database = VUndefined then VObject [] else database)"
    and tf: "transient_failures (isRetryable runQuery_retryableErrors)
      (queryExecution env queryString db batchSize) w k"
    and k: "k \<le> 3"
    and bc: "buildConfig (ext_parseInt env) db = Inr config"
    and gp: "getPool env config (state_after (queryExecution env queryString db batchSize) w k)
      = (Inr (), w1)"
    and cnt: "pool_request_query env (count_sql (ext_cleanQuery env queryString)) (driver_state w1)
      = (Inl e, d2)"
    and st: "request_stream env queryString d2 = (Inr (columns, rows), d3)"
  have rc: "read_expected_row_count
      (case (Inl e :: js_thrown + int list) of Inl err \<Rightarrow> None | Inr recordset \<Rightarrow> Some recordset)
    = Inr None"
    by simp
  show "fst (runQuery env queryString database batchSize w)
      = Returned \<lparr>batches = asyncIterableToBatchedAsyncGenerator rows batchSize,
                  columnTypes = mapResultsToEvidenceColumnTypes columns,
                  expectedRowCount = None\<rparr>"
    by (rule runQuery_produces [OF db tf k bc gp cnt rc st])
next
  assume db: "db = (if database = VUndefined then VObject [] else database)"
    and tf: "transient_failures (isRetryable runQuery_retryableErrors)
      (queryExecution env queryString db batchSize) w k"
    and k: "k \<le> 3"
    and bc: "buildConfig (ext_parseInt env) db = Inr config"
    and gp: "getPool env config (state_after (queryExecution env queryString db batchSize) w k)
      = (Inr (), w1)"
    and cnt: "pool_request_query env (count_sql (ext_cleanQuery env queryString)) (driver_state w1)
      = (Inr (c # cs), d2)"
    and st: "request_stream env queryString d2 = (Inr (columns, rows), d3)"
  have rc: "read_expected_row_count
      (case (Inr (c # cs) :: js_thrown + int list) of
         Inl err \<Rightarrow> None | Inr recordset \<Rightarrow> Some recordset)
    = Inr (Some c)"
    by simp
  show "fst (runQuery env queryString database batchSize w)
      = Returned \<lparr>batches = asyncIterableToBatchedAsyncGenerator rows batchSize,
                  columnTypes = mapResultsToEvidenceColumnTypes columns,
                  expectedRowCount = Some c\<rparr>"
    by (rule runQuery_produces [OF db tf k bc gp cnt rc st])
next
  assume db: "db = (if database = VUndefined then VObject [] else database)"
    and bc: "buildConfig (ext_parseInt env) db = Inr config"
    and cn: "connection = withRetry (mssql_connect env config) retryOptions rnd d"
    and co: "outcome connection = Inr ()"
    and cnt: "counted = withRetry (pool_request_query env (count_sql (ext_cleanQuery env queryString)))
                retryOptions rnd (final connection)"
    and oc: "outcome counted = Inl e"
    and tf: "transient_failures shouldRetry (request_stream env queryString) (final counted) k"
    and k: "int k < max 1 (maxRetries retryOptions)"
    and st: "request_stream env queryString
      (state_after (request_stream env queryString) (final counted) k)
      = (Inr (columns, rows), d3)"
  have rc: "read_expected_row_count
      (case outcome counted of Inl err \<Rightarrow> None | Inr recordset \<Rightarrow> Some recordset)
    = Inr None"
    by (simp add: oc)
  show "fst (runQuery2 env retryOptions rnd queryString database batchSize d)
      = Inr \<lparr>batches = asyncIterableToBatchedAsyncGenerator rows batchSize,
             columnTypes = mapResultsToEvidenceColumnTypes columns,
             expectedRowCount = None\<rparr>"
    by (rule runQuery2_produces [OF db bc cn co cnt rc tf k st])
next
  assume db: "db = (if database = VUndefined then VObject [] else database)"
    and bc: "buildConfig (ext_parseInt env) db = Inr config"
    and cn: "connection = withRetry (mssql_connect env config) retryOptions rnd d"
    and co: "outcome connection = Inr ()"
    and cnt: "counted = withRetry (pool_request_query env (count_sql (ext_cleanQuery env queryString)))
                retryOptions rnd (final connection)"
    and oc: "outcome counted = Inr (c # cs)"
    and tf: "transient_failures shouldRetry (request_stream env queryString) (final counted) k"
    and k: "int k < max 1 (maxRetries retryOptions)"
    and st: "request_stream env queryString
      (state_after (request_stream env queryString) (final counted) k)
      = (Inr (columns, rows), d3)"
  have rc: "read_expected_row_count
      (case outcome counted of Inl err \<Rightarrow> None | Inr recordset \<Rightarrow> Some recordset)
    = Inr (Some c)"
    by (simp add: oc)
  show "fst (runQuery2 env retryOptions rnd queryString database batchSize d)
      = Inr \<lparr>batches = asyncIterableToBatchedAsyncGenerator rows batchSize,
             columnTypes = mapResultsToEvidenceColumnTypes columns,
             expectedRowCount = Some c\<rparr>"
    by (rule runQuery2_produces [OF db bc cn co cnt rc tf k st])
qed

theorem count_failure_not_fatal_witness:
  "pool_request_query
     (fixed_driver (Inr ()) (Inl (JsError ''RequestError'' ''bad SQL''))
        (Inr ([\<lparr>field_name = ''n'', field_type = TYPES_Int\<rparr>], [10, 20, 30, 40, 50])) (Inr ()))
     (count_sql ''SELECT n FROM t'') ()
   = (Inl (JsError ''RequestError'' ''bad SQL''), ()) \<and>
   fst (runQuery
     (fixed_driver (Inr ()) (Inl (JsError ''RequestError'' ''bad SQL''))
        (Inr ([\<lparr>field_name = ''n'', field_type = TYPES_Int\<rparr>], [10, 20, 30, 40, 50])) (Inr ()))
     ''SELECT n FROM t'' sql_login 2 \<lparr>poolPromise = False, driver_state = ()\<rparr>)
   = Returned \<lparr>batches = [[10, 20], [30, 40], [50]],
               columnTypes = [\<lparr>name = ''n'', evidenceType = NUMBER, typeFidelity = PRECISE\<rparr>],
               expectedRowCount = None\<rparr> \<and>
   fst (runQuery
     (fixed_driver (Inr ()) (Inr [5])
        (Inr ([\<lparr>field_name = ''n'', field_type = TYPES_Int\<rparr>], [10, 20, 30, 40, 50])) (Inr ()))
     ''SELECT n FROM t'' sql_login 2 \<lparr>poolPromise = False, driver_state = ()\<rparr>)
   = Returned \<lparr>batches = [[10, 20], [30, 40], [50]],
               columnTypes = [\<lparr>name = ''n'', evidenceType = NUMBER, typeFidelity = PRECISE\<rparr>],
               expectedRowCount = Some 5\<rparr> \<and>
   fst (runQuery2
     (fixed_driver (Inr ()) (Inl (JsError ''RequestError'' ''bad SQL''))
        (Inr ([\<lparr>field_name = ''n'', field_type = TYPES_Int\<rparr>], [10, 20, 30, 40, 50])) (Inr ()))
     withRetry_defaults (\<lambda>i. 0) ''SELECT n FROM t'' sql_login 2 ())
   = Inr \<lparr>batches = [[10, 20], [30, 40], [50]],
          columnTypes = [\<lparr>name = ''n'', evidenceType = NUMBER, typeFidelity = PRECISE\<rparr>],
          expectedRowCount = None\<rparr> \<and>
   fst (runQuery2
     (fixed_driver (Inr ()) (Inr [5])
        (Inr ([\<lparr>field_name = ''n'', field_type = TYPES_Int\<rparr>], [10, 20, 30, 40, 50])) (Inr ()))
     withRetry_defaults (\<lambda>i. 0) ''SELECT n FROM t'' sql_login 2 ())
   = Inr \<lparr>batches = [[10, 20], [30, 40], [50]],
          columnTypes = [\<lparr>name = ''n'', evidenceType = NUMBER, typeFidelity = PRECISE\<rparr>],
          expectedRowCount = Some 5\<rparr>"
proof -
  let ?cols = "[\<lparr>field_name = ''n'', field_type = TYPES_Int\<rparr>]"
  let ?rows = "[10, 20, 30, 40, 50 :: int]"
  let ?e = "JsError ''RequestError'' ''bad SQL''"
  let ?bad = "fixed_driver (Inr ()) (Inl ?e) (Inr (?cols, ?rows)) (Inr ())"
  let ?fd = "fixed_driver (Inr ()) (Inr [5]) (Inr (?cols, ?rows)) (Inr ())"
  let ?q = "''SELECT n FROM t''"
  let ?w = "\<lparr>poolPromise = False, driver_state = ()\<rparr>"
  let ?w1 = "\<lparr>poolPromise = True, driver_state = ()\<rparr>"
  let ?bs = "[[10, 20], [30, 40], [50 :: int]]"
  let ?cts = "[\<lparr>name = ''n'', evidenceType = NUMBER, typeFidelity = PRECISE\<rparr>]"
  obtain config where c: "buildConfig (\<lambda>v. v) sql_login = Inr config"
    using sql_login_config by blast
  have v: "sql_login \<noteq> VUndefined" by (simp add: sql_login_def)
  have g: "asyncIterableToBatchedAsyncGenerator ?rows 2 = ?bs"
    by (simp add: asyncIterableToBatchedAsyncGenerator.simps)
  have m: "mapResultsToEvidenceColumnTypes ?cols = ?cts"
    by (simp add: mapResultsToEvidenceColumnTypes_def mapField_def)
  have n: "\<not> shouldRetry ?e" by (simp add: bad_sql_not_matches)
  have bc: "buildConfig (ext_parseInt ?bad) sql_login = Inr config"
    "buildConfig (ext_parseInt ?fd) sql_login = Inr config"
    using c by (simp_all add: fixed_driver_def)
  have gp: "getPool ?bad config ?w = (Inr (), ?w1)" "getPool ?fd config ?w = (Inr (), ?w1)"
    by (simp_all add: getPool_def fixed_driver_def)
  have cl: "ext_cleanQuery ?bad ?q = ?q" "ext_cleanQuery ?fd ?q = ?q"
    by (simp_all add: fixed_driver_def)
  have cq: "pool_request_query ?bad (count_sql ?q) () = (Inl ?e, ())"
    "pool_request_query ?fd (count_sql ?q) () = (Inr [5], ())"
    by (simp_all add: fixed_driver_def)
  have st: "request_stream ?bad ?q () = (Inr (?cols, ?rows), ())"
    "request_stream ?fd ?q () = (Inr (?cols, ?rows), ())"
    by (simp_all add: fixed_driver_def)
  let ?cb = "withRetry (mssql_connect ?bad config) withRetry_defaults (\<lambda>i. 0) ()"
  let ?cf = "withRetry (mssql_connect ?fd config) withRetry_defaults (\<lambda>i. 0) ()"
  let ?nb = "withRetry (pool_request_query ?bad (count_sql (ext_cleanQuery ?bad ?q)))
               withRetry_defaults (\<lambda>i. 0) (final ?cb)"
  let ?nf = "withRetry (pool_request_query ?fd (count_sql (ext_cleanQuery ?fd ?q)))
               withRetry_defaults (\<lambda>i. 0) (final ?cf)"
  have cn: "?cb = \<lparr>outcome = Inr (), calls = 1, waits = [], final = ()\<rparr>"
    "?cf = \<lparr>outcome = Inr (), calls = 1, waits = [], final = ()\<rparr>"
    by (rule withRetry_first_success, simp add: fixed_driver_def)+
  have nf: "?nf = \<lparr>outcome = Inr [5], calls = 1, waits = [], final = ()\<rparr>"
    by (rule withRetry_first_success) (simp add: fixed_driver_def)
  have nb: "?nb = \<lparr>outcome = Inl ?e, calls = 1, waits = [], final = ()\<rparr>"
    using n by (simp add: withRetry_def withRetry_loop.simps fixed_driver_def)
  note t = count_failure_not_fatal [where batchSize = 2 and db = sql_login
      and database = sql_login and queryString = ?q and k = 0 and config = config
      and retryOptions = withRetry_defaults and rnd = "\<lambda>i. 0" and columns = ?cols
      and rows = ?rows]
  have 1: "fst (runQuery ?bad ?q sql_login 2 ?w)
    = Returned \<lparr>batches = ?bs, columnTypes = ?cts, expectedRowCount = None\<rparr>"
    using t [THEN conjunct1, rule_format, where env = ?bad and w = ?w and ?w1.0 = ?w1
        and e = ?e and ?d2.0 = "()" and ?d3.0 = "()"]
      v bc gp cl cq st
    by (simp add: g m)
  have 2: "fst (runQuery ?fd ?q sql_login 2 ?w)
    = Returned \<lparr>batches = ?bs, columnTypes = ?cts, expectedRowCount = Some 5\<rparr>"
    using t [THEN conjunct2, THEN conjunct1, rule_format, where env = ?fd and w = ?w
        and ?w1.0 = ?w1 and c = 5 and cs = "[]" and ?d2.0 = "()" and ?d3.0 = "()"]
      v bc gp cl cq st
    by (simp add: g m)
  have 3: "fst (runQuery2 ?bad withRetry_defaults (\<lambda>i. 0) ?q sql_login 2 ())
    = Inr \<lparr>batches = ?bs, columnTypes = ?cts, expectedRowCount = None\<rparr>"
    using t [THEN conjunct2, THEN conjunct2, THEN conjunct1, rule_format, where env = ?bad
        and connection = ?cb and counted = ?nb and d = "()" and e = ?e and ?d3.0 = "()"]
      v bc cn nb st
    by (simp add: g m withRetry_defaults_def)
  have 4: "fst (runQuery2 ?fd withRetry_defaults (\<lambda>i. 0) ?q sql_login 2 ())
    = Inr \<lparr>batches = ?bs, columnTypes = ?cts, expectedRowCount = Some 5\<rparr>"
    using t [THEN conjunct2, THEN conjunct2, THEN conjunct2, rule_format, where env = ?fd
        and connection = ?cf and counted = ?nf and d = "()" and c = 5 and cs = "[]"
        and ?d3.0 = "()"]
      v bc cn nf st
    by (simp add: g m withRetry_defaults_def)
  show ?thesis
    using 1 2 3 4 cq(1) by simp
qed

lemma replace_newlines_flat:
  "CHR 0x0A \<notin> set (replace_newlines s) \<and> CHR 0x0D \<notin> set (replace_newlines s)"
  by (auto simp: replace_newlines_def)


lemma login_failed_not_isRetryable:
  "\<not> isRetryable runQuery_retryableErrors (JsError ''ConnectionError'' ''Login failed'')"
  by (simp add: isRetryable_def runQuery_retryableErrors_def js_includes_def errorMessage_def
      sublist_code(3))
















lemma fixed_driver_login_failed:
  "runQuery
     (fixed_driver (Inl (JsError ''ConnectionError'' ''Login failed'')) (Inr [1])
        (Inr ([\<lparr>field_name = ''TEST'', field_type = TYPES_Int\<rparr>], [1])) (Inr ()))
     ''SELECT 1 AS TEST;'' sql_login 100000 \<lparr>poolPromise = False, driver_state = ()\<rparr>
   = (Thrown (JsString ''Login failed''), \<lparr>poolPromise = False, driver_state = ()\<rparr>)"
proof -
  obtain config where c: "buildConfig (\<lambda>v. v) sql_login = Inr config"
    using sql_login_config by blast
  have v: "sql_login \<noteq> VUndefined" by (simp add: sql_login_def)
  show ?thesis
    by (simp add: runQuery_def retry_def retry_loop.simps queryExecution_def fixed_driver_def
        getPool_def c v Let_def runQuery_retry_options_def login_failed_not_isRetryable
        replace_newlines_def)
qed





lemma empty_message_not_isRetryable:
  "\<not> isRetryable runQuery_retryableErrors (JsError ''Error'' [])"
  by (simp add: isRetryable_def runQuery_retryableErrors_def js_includes_def errorMessage_def
      Error_toString_def sublist_code(3))

lemma retry_loop_thrown:
  "outcome (retry_loop fn opts attempt s) = Thrown e \<Longrightarrow>
   \<exists>s' err. fst (fn s') = Inl err \<and> e = JsError (fst (normalise err)) (snd (normalise err))"
proof (induction fn opts attempt s rule: retry_loop.induct)
  case (1 fn opts attempt s)
  show ?case
  proof (cases "attempt \<le> retries opts + 1")
    case False
    with "1.prems" show ?thesis by (subst (asm) retry_loop.simps) simp
  next
    case inb: True
    show ?thesis
    proof (cases "fn s")
      case (Pair res s')
      show ?thesis
      proof (cases res)
        case (Inr x)
        with Pair inb "1.prems" show ?thesis by (subst (asm) retry_loop.simps) simp
      next
        case (Inl err)
        show ?thesis
        proof (cases "\<not> isRetryable (retryableErrors opts) err \<or> attempt = retries opts + 1")
          case True
          with Pair Inl inb "1.prems"
          have "e = JsError (fst (normalise err)) (snd (normalise err))"
            by (subst (asm) retry_loop.simps) auto
          moreover have "fst (fn s) = Inl err" using Pair Inl by simp
          ultimately show ?thesis by blast
        next
          case False
          with Pair Inl inb "1.prems"
          have "outcome (retry_loop fn opts (attempt + 1) s') = Thrown e"
            by (subst (asm) retry_loop.simps) (auto simp: Let_def)
          from "1.IH" [OF inb Pair [symmetric] Inl False refl this] show ?thesis .
        qed
      qed
    qed
  qed
qed

text \<open>
  The error normaliser of index.cjs. Whatever \<^verbatim>\<open>runQuery\<close> throws is a string without
  newline or carriage return: the message of the error that the last attempt of the
  execution threw, after the normalisation of \<^verbatim>\<open>retry\<close> (the message of an \<^verbatim>\<open>Error\<close>, a
  thrown string itself), with each of the two characters replaced by a space.
\<close>

theorem runQuery_surfaces_flat_string:
  "fst (runQuery env queryString database batchSize w) = Thrown e \<longrightarrow>
   (\<exists>w' err.
      fst (queryExecution env queryString
             (if database = VUndefined then VObject [] else database) batchSize w') = Inl err \<and>
      e = JsString (replace_newlines (snd (normalise err))) \<and>
      CHR 0x0A \<notin> set (replace_newlines (snd (normalise err))) \<and>
      CHR 0x0D \<notin> set (replace_newlines (snd (normalise err))))"
proof
  assume a: "fst (runQuery env queryString database batchSize w) = Thrown e"
  let ?fn = "queryExecution env queryString
    (if database = VUndefined then VObject [] else database) batchSize"
  let ?r = "retry_loop ?fn runQuery_retry_options 1 w"
  from a obtain x where o: "outcome ?r = Thrown x"
    and e: "e = JsString (replace_newlines (errStr x))"
    by (cases "outcome ?r") (auto simp: runQuery_def retry_def Let_def)
  from retry_loop_thrown [OF o] obtain w' err where
    f: "fst (?fn w') = Inl err"
    and x: "x = JsError (fst (normalise err)) (snd (normalise err))"
    by blast
  have "e = JsString (replace_newlines (snd (normalise err)))"
    by (simp add: e x)
  with f replace_newlines_flat [of "snd (normalise err)"]
  show "\<exists>w' err.
      fst (?fn w') = Inl err \<and>
      e = JsString (replace_newlines (snd (normalise err))) \<and>
      CHR 0x0A \<notin> set (replace_newlines (snd (normalise err))) \<and>
      CHR 0x0D \<notin> set (replace_newlines (snd (normalise err)))"
    by blast
qed

theorem runQuery_surfaces_flat_string_witness:
  "fst (runQuery
     (fixed_driver (Inl (JsError ''ConnectionError'' ''Login failed'')) (Inr [1])
        (Inr ([\<lparr>field_name = ''TEST'', field_type = TYPES_Int\<rparr>], [1])) (Inr ()))
     ''SELECT 1 AS TEST;'' sql_login 100000 \<lparr>poolPromise = False, driver_state = ()\<rparr>)
   = Thrown (JsString ''Login failed'') \<and>
   CHR 0x0A \<notin> set ''Login failed'' \<and> CHR 0x0D \<notin> set ''Login failed''"
  using runQuery_surfaces_flat_string
    [of "fixed_driver (Inl (JsError ''ConnectionError'' ''Login failed'')) (Inr [1])
        (Inr ([\<lparr>field_name = ''TEST'', field_type = TYPES_Int\<rparr>], [1])) (Inr ())"
      "''SELECT 1 AS TEST;''" sql_login 100000 "\<lparr>poolPromise = False, driver_state = ()\<rparr>"
      "JsString ''Login failed''"]
    fixed_driver_login_failed
  by simp

text \<open>
  Claim C7 at a connection that fails with an \<^verbatim>\<open>Error\<close> whose message is the empty
  string. The catch block of the second variant finds \<^verbatim>\<open>err.message\<close> falsy and calls
  \<^verbatim>\<open>err.replace\<close>, which an \<^verbatim>\<open>Error\<close> does not have: what reaches the host is a
  \<^verbatim>\<open>TypeError\<close>, not a string. At the same input \<^verbatim>\<open>runQuery\<close> of index.cjs throws the
  message, the empty string.
\<close>

theorem runQuery2_surfaces_TypeError:
  "fst (runQuery2
     (fixed_driver (Inl (JsError ''Error'' [])) (Inr [1])
        (Inr ([\<lparr>field_name = ''TEST'', field_type = TYPES_Int\<rparr>], [1])) (Inr ()))
     withRetry_defaults (\<lambda>i. 0) ''SELECT 1 AS TEST;'' sql_login 100000 ())
   = Inl (JsError ''TypeError'' ''err.replace is not a function'') \<and>
   fst (runQuery
     (fixed_driver (Inl (JsError ''Error'' [])) (Inr [1])
        (Inr ([\<lparr>field_name = ''TEST'', field_type = TYPES_Int\<rparr>], [1])) (Inr ()))
     ''SELECT 1 AS TEST;'' sql_login 100000 \<lparr>poolPromise = False, driver_state = ()\<rparr>)
   = Thrown (JsString [])"
proof -
  obtain config where c: "buildConfig (\<lambda>v. v) sql_login = Inr config"
    using sql_login_config by blast
  have v: "sql_login \<noteq> VUndefined" by (simp add: sql_login_def)
  have a: "fst (runQuery2
     (fixed_driver (Inl (JsError ''Error'' [])) (Inr [1])
        (Inr ([\<lparr>field_name = ''TEST'', field_type = TYPES_Int\<rparr>], [1])) (Inr ()))
     withRetry_defaults (\<lambda>i. 0) ''SELECT 1 AS TEST;'' sql_login 100000 ())
   = Inl (JsError ''TypeError'' ''err.replace is not a function'')"
    by (simp add: runQuery2_def runQuery2_try_def withRetry_def withRetry_loop.simps
        fixed_driver_def c v Let_def TypeError_def)
  have b: "fst (runQuery
     (fixed_driver (Inl (JsError ''Error'' [])) (Inr [1])
        (Inr ([\<lparr>field_name = ''TEST'', field_type = TYPES_Int\<rparr>], [1])) (Inr ()))
     ''SELECT 1 AS TEST;'' sql_login 100000 \<lparr>poolPromise = False, driver_state = ()\<rparr>)
   = Thrown (JsString [])"
    by (simp add: runQuery_def retry_def retry_loop.simps queryExecution_def fixed_driver_def
        getPool_def c v Let_def runQuery_retry_options_def empty_message_not_isRetryable
        replace_newlines_def)
  show ?thesis using a b by simp
qed

end
